theory Spec2Isabelle
  imports Complex_Main
begin

section \<open>Local linearity measure (alibi/confidence/model\_linearity.py)\<close>

text \<open>
  The module samples a neighbourhood around each instance of a batch (nearest training
  points, or random steps on a grid), evaluates the model on the samples, on the instances
  and on their weighted superposition, and returns the mean squared discrepancy per
  instance. The embedding below follows the module function by function.
  Definitions carry the names of the source; a leading underscore is dropped
  (\<open>_sample_knn\<close> is \<open>sample_knn\<close>), \<open>_linearity_measure\<close> is \<open>u_linearity_measure\<close>, the
  methods of the class are \<open>LinearityMeasure_init\<close>, \<open>LinearityMeasure_fit\<close> and
  \<open>LinearityMeasure_linearity_measure\<close>, and its attributes are \<open>self_method\<close> and so
  on.

  Numbers are real numbers and all arithmetic is exact: the rounding of float64 and its
  overflow to \<open>inf\<close> or \<open>nan\<close> are not represented, and the statements below are about
  exact arithmetic. (\<open>round64\<close> below rounds a real to float64, to show where the stored
  value differs.) A cell of an array computed from model outputs is a \<open>real option\<close>, where
  \<open>None\<close> stands for the result of an operation that has no real value: the mean of an
  empty slice (\<open>nan\<close>) and the logarithm of a number that is not positive (\<open>nan\<close> or
  \<open>-inf\<close>).
\<close>

subsection \<open>Exceptions\<close>

datatype error =
  AssertionError | NameError | ValueError | TypeError | IndexError | ZeroDivisionError

definition bind_err :: "error + 'a \<Rightarrow> ('a \<Rightarrow> error + 'b) \<Rightarrow> error + 'b" where
  "bind_err r f = (case r of Inl e \<Rightarrow> Inl e | Inr v \<Rightarrow> f v)"

subsection \<open>Arrays\<close>

text \<open>
  A numpy array is its shape and its cells in row-major (C) order. An array is well formed
  when it has as many cells as its shape says.
\<close>

record 'a ndarray =
  shape :: "nat list"
  data :: "'a list"

definition wf_array :: "'a ndarray \<Rightarrow> bool" where
  "wf_array a \<longleftrightarrow> length (data a) = prod_list (shape a)"

text \<open>\<open>a.reshape(s)\<close> for a shape without \<open>-1\<close>: the sizes must agree.\<close>

definition np_reshape :: "'a ndarray \<Rightarrow> nat list \<Rightarrow> error + 'a ndarray" where
  "np_reshape a s =
     (if prod_list s = prod_list (shape a) then Inr \<lparr>shape = s, data = data a\<rparr>
      else Inl ValueError)"

text \<open>
  \<open>a.reshape(a.shape[0], -1)\<close>: \<open>a.shape[0]\<close> raises IndexError on a 0-d array, and numpy
  refuses to infer \<open>-1\<close> when the known dimension is 0.
\<close>

definition reshape_rows :: "'a ndarray \<Rightarrow> error + 'a ndarray" where
  "reshape_rows a =
     (case shape a of
        [] \<Rightarrow> Inl IndexError
      | n # rest \<Rightarrow>
          if n = 0 then Inl ValueError
          else Inr \<lparr>shape = [n, prod_list rest], data = data a\<rparr>)"

text \<open>Cell \<open>a[i, e]\<close> of a 2-d array and cell \<open>a[i, j, e]\<close> of a 3-d array.\<close>

definition at2 :: "'a ndarray \<Rightarrow> nat \<Rightarrow> nat \<Rightarrow> 'a" where
  "at2 a i e = data a ! (i * (shape a ! 1) + e)"

definition at3 :: "'a ndarray \<Rightarrow> nat \<Rightarrow> nat \<Rightarrow> nat \<Rightarrow> 'a" where
  "at3 a i j e = data a ! ((i * (shape a ! 1) + j) * (shape a ! 2) + e)"

text \<open>The 3-d array of shape \<open>(n, k, d)\<close> whose cell \<open>[i, j, e]\<close> is \<open>f i j e\<close>.\<close>

definition tabulate3 :: "nat \<Rightarrow> nat \<Rightarrow> nat \<Rightarrow> (nat \<Rightarrow> nat \<Rightarrow> nat \<Rightarrow> 'a) \<Rightarrow> 'a ndarray" where
  "tabulate3 n k d f =
     \<lparr>shape = [n, k, d],
      data = map (\<lambda>p. f (p div d div k) (p div d mod k) (p mod d)) [0..<n * k * d]\<rparr>"

subsection \<open>The random source\<close>

text \<open>
  numpy's global generator is a hidden state; here it is an infinite stream of raw draws
  that \<open>np.random.randint\<close> consumes. \<open>randint high shp\<close> is
  \<open>np.random.randint(high, size=shp)\<close>: integers in \<open>[0, high)\<close>. Every array of in-range
  integers is the outcome for some stream.
\<close>

type_synonym rng = "nat \<Rightarrow> nat"

definition randint :: "int \<Rightarrow> int list \<Rightarrow> rng \<Rightarrow> error + (int ndarray \<times> rng)" where
  "randint high shp g =
     (if high \<le> 0 \<or> (\<exists>n \<in> set shp. n < 0) then Inl ValueError
      else let s = map nat shp; n = prod_list s
           in Inr (\<lparr>shape = s, data = map (\<lambda>i. int (g i) mod high) [0..<n]\<rparr>,
                   \<lambda>i. g (i + n)))"

subsection \<open>Grid sampling\<close>

text \<open>
  \<open>np.round\<close> rounds half to even; \<open>.astype(int)\<close> then gives the integer. It is applied
  to the exact product \<open>epsilon * res\<close> (the source rounds the float64 product).
\<close>

definition np_round :: "real \<Rightarrow> int" where
  "np_round v =
     (let f = \<lfloor>v\<rfloor>; d = v - of_int f
      in if d < 1 / 2 then f else if 1 / 2 < d then f + 1
         else if even f then f else f + 1)"

text \<open>
  \<open>rnd * deltas\<close>: an integer array of shape \<open>(n, k, d)\<close> times a vector of length \<open>F\<close>,
  broadcast along the last axis (equal lengths, or one of them 1).
\<close>

definition mul_deltas :: "int ndarray \<Rightarrow> real list \<Rightarrow> error + real ndarray" where
  "mul_deltas rnd deltas =
     (let n = shape rnd ! 0; k = shape rnd ! 1; d = shape rnd ! 2; F = length deltas
      in if d = F \<or> d = 1 \<or> F = 1
         then Inr (tabulate3 n k (if d = 1 then F else d)
                (\<lambda>i j e. of_int (at3 rnd i j (if d = 1 then 0 else e))
                           * deltas ! (if F = 1 then 0 else e)))
         else Inl ValueError)"

text \<open>
  \<open>x.reshape(x.shape[0], 1, x.shape[1]) + vprime\<close> for \<open>x\<close> of shape \<open>(n, d)\<close> and \<open>vprime\<close>
  of shape \<open>(n, k, E)\<close>: the middle axis of \<open>x\<close> is broadcast, and so is its last axis when
  \<open>d = 1\<close>. The sum is the exact one (numpy stores it rounded to float64).
\<close>

definition add_centre :: "real ndarray \<Rightarrow> real ndarray \<Rightarrow> error + real ndarray" where
  "add_centre x vprime =
     (let n = shape x ! 0; d = shape x ! 1;
          n' = shape vprime ! 0; k = shape vprime ! 1; E = shape vprime ! 2
      in if n = n' \<and> (d = E \<or> d = 1 \<or> E = 1)
         then Inr (tabulate3 n k (if E = 1 then d else E)
                (\<lambda>i j e. at2 x i (if d = 1 then 0 else e)
                           + at3 vprime i j (if E = 1 then 0 else e)))
         else Inl ValueError)"

text \<open>
  \<open>_sample_gridSampling\<close>. \<open>features_range\<close> is an array of shape \<open>(F, 2)\<close>, one
  \<open>(min, max)\<close> row per feature, or \<open>None\<close>. The two \<open>randint\<close> calls draw the signs and the
  step counts.
\<close>

definition sample_gridSampling ::
  "real ndarray \<Rightarrow> (real \<times> real) list option \<Rightarrow> real \<Rightarrow> int \<Rightarrow> int \<Rightarrow> rng
     \<Rightarrow> error + real ndarray" where
  "sample_gridSampling x features_range epsilon nb_samples res g =
     (case shape x of
        [] \<Rightarrow> Inl IndexError
      | nb_instances # _ \<Rightarrow>
          bind_err (reshape_rows x) (\<lambda>x.
            let dim = shape x ! 1
            in if \<not> 0 < dim then Inl AssertionError
               else case features_range of
                 None \<Rightarrow> Inl AssertionError
               | Some fr \<Rightarrow>
                   let size0 = np_round (epsilon * of_int res);
                       size = (if size0 \<le> 2 then 2 else size0)
                   in if res = 0 then Inl ZeroDivisionError
                      else
                        let deltas = map (\<lambda>(lo, hi). \<bar>hi - lo\<bar> * (1 / of_int res)) fr;
                            shp = [int nb_instances, nb_samples, int dim]
                        in bind_err (randint 2 shp g) (\<lambda>(r1, g1).
                           bind_err (randint size shp g1) (\<lambda>(r2, g2).
                             let rnd_sign = r1\<lparr>data := map (\<lambda>v. 2 * v - 1) (data r1)\<rparr>;
                                 rnd1 = r2\<lparr>data := map (\<lambda>v. v + 1) (data r2)\<rparr>;
                                 rnd = rnd1\<lparr>data := map2 (*) (data rnd_sign) (data rnd1)\<rparr>
                             in bind_err (mul_deltas rnd deltas) (\<lambda>vprime.
                                  add_centre x vprime)))))"

subsection \<open>Nearest-neighbour sampling\<close>

text \<open>
  \<open>a[i]\<close> as a flat list of cells, and \<open>a[indices]\<close> (one row per index, the trailing shape
  kept).
\<close>

definition row :: "'a ndarray \<Rightarrow> nat \<Rightarrow> 'a list" where
  "row a i = (let w = prod_list (tl (shape a)) in take w (drop (i * w) (data a)))"

definition take_rows :: "'a ndarray \<Rightarrow> nat list \<Rightarrow> 'a ndarray" where
  "take_rows a indices =
     \<lparr>shape = length indices # tl (shape a), data = concat (map (row a) indices)\<rparr>"

text \<open>
  \<open>np.array(as)\<close> for a list of arrays: the arrays are stacked along a new first axis; an
  empty list gives the array of shape \<open>(0,)\<close>, arrays of different shapes are refused.
\<close>

definition np_array :: "'a ndarray list \<Rightarrow> error + 'a ndarray" where
  "np_array as =
     (case as of
        [] \<Rightarrow> Inr \<lparr>shape = [0], data = []\<rparr>
      | a # _ \<Rightarrow>
          if \<forall>b \<in> set as. shape b = shape a
          then Inr \<lparr>shape = length as # shape a, data = concat (map data as)\<rparr>
          else Inl ValueError)"

text \<open>Squared and plain Euclidean distance of two flat feature vectors.\<close>

definition sqdist :: "real list \<Rightarrow> real list \<Rightarrow> real" where
  "sqdist u v = sum_list (map2 (\<lambda>a b. (a - b)\<^sup>2) u v)"

definition euclid :: "real list \<Rightarrow> real list \<Rightarrow> real" where
  "euclid u v = sqrt (sqdist u v)"

text \<open>
  Modelled from the spec: scikit-learn's
  \<open>NearestNeighbors(n_neighbors, algorithm='ball_tree').fit(X_train).kneighbors(q)\<close> is a
  library call whose code is not part of the repository. The specification says that it
  "retrieves the \<open>nb_samples\<close> nearest training points by Euclidean distance, ascending",
  "ties broken by index order of the underlying index structure": the indices of the
  training rows are sorted by distance to the query, stably, and the first \<open>n_neighbors\<close>
  are returned. The library refuses \<open>n_neighbors \<le> 0\<close>, more neighbours than training rows,
  and a query whose length differs from the training rows'.
\<close>

definition kneighbors :: "real ndarray \<Rightarrow> int \<Rightarrow> real list \<Rightarrow> error + nat list" where
  "kneighbors X_train n_neighbors q =
     (let n = shape X_train ! 0
      in if n_neighbors \<le> 0 \<or> int n < n_neighbors \<or> length q \<noteq> shape X_train ! 1
         then Inl ValueError
         else Inr (take (nat n_neighbors)
                     (sort_key (\<lambda>j. sqdist q (row X_train j)) [0..<n])))"

text \<open>
  The loop of \<open>_sample_knn\<close> over the instances. Each round flattens \<open>X_train\<close> again,
  queries the neighbours of instance \<open>i\<close> (every row of \<open>X_stack\<close> is \<open>x[i]\<close>, and only the
  answer for row 0 is kept) and appends \<open>X_train[indices]\<close>, rows of the flattened
  training set.
\<close>

fun knn_loop ::
  "real ndarray \<Rightarrow> real ndarray \<Rightarrow> int \<Rightarrow> nat list \<Rightarrow> error + real ndarray list" where
  "knn_loop x X_train nb_samples [] = Inr []"
| "knn_loop x X_train nb_samples (i # is) =
     bind_err (reshape_rows X_train) (\<lambda>X_train.
       bind_err (kneighbors X_train nb_samples (row x i)) (\<lambda>indices.
         let X_sampled_tmp = take_rows X_train indices
         in bind_err (knn_loop x X_train nb_samples is) (\<lambda>X_sampled.
              Inr (X_sampled_tmp # X_sampled))))"

definition sample_knn :: "real ndarray \<Rightarrow> real ndarray \<Rightarrow> int \<Rightarrow> error + real ndarray" where
  "sample_knn x X_train nb_samples =
     bind_err (reshape_rows x) (\<lambda>x.
       let nb_instances = shape x ! 0
       in bind_err (knn_loop x X_train nb_samples [0..<nb_instances]) np_array)"

text \<open>
  The slice \<open>a[i, j]\<close> of an array with at least two axes, as a flat list of cells, and the
  neighbour indices that the sampler computes for instance \<open>i\<close>.
\<close>

definition slice3 :: "'a ndarray \<Rightarrow> nat \<Rightarrow> nat \<Rightarrow> 'a list" where
  "slice3 a i j =
     (let k = shape a ! 1; w = prod_list (drop 2 (shape a))
      in take w (drop ((i * k + j) * w) (data a)))"

definition knn_indices :: "real ndarray \<Rightarrow> real ndarray \<Rightarrow> int \<Rightarrow> nat \<Rightarrow> nat list" where
  "knn_indices x X_train nb_samples i =
     take (nat nb_samples)
       (sort_key (\<lambda>j. sqdist (row x i) (row X_train j)) [0..<shape X_train ! 0])"

text \<open>Cell \<open>e\<close> of instance \<open>i\<close> of a batch, the instance read as a flat feature vector.\<close>

definition instance_cell :: "'a ndarray \<Rightarrow> nat \<Rightarrow> nat \<Rightarrow> 'a" where
  "instance_cell x i e = data x ! (i * prod_list (tl (shape x)) + e)"

subsection \<open>Scoring\<close>

text \<open>
  The arrays that \<open>_calculate_linearity_regression\<close> and \<open>_calculate_linearity_measure\<close>
  compute from the model's outputs have cells of type \<open>fl\<close>: \<open>Some r\<close> is the real number
  \<open>r\<close>, \<open>None\<close> is the result of an operation that has no real value (\<open>nan\<close> for the mean
  of an empty slice, \<open>nan\<close> or \<open>-inf\<close> for the logarithm of a number that is not positive)
  and of any operation on such a cell. Overflow is not represented: an operation on real
  numbers gives the exact real number. \<open>predict_fn\<close> itself is a function from real arrays
  to real arrays; \<open>to_fl\<close> reads its output as a float array.
\<close>

type_synonym fl = "real option"

definition to_fl :: "real ndarray \<Rightarrow> fl ndarray" where
  "to_fl a = \<lparr>shape = shape a, data = map Some (data a)\<rparr>"

text \<open>
  The scorers call \<open>predict_fn\<close>, an external function, and the number of calls is part of
  what is specified. A computation therefore returns the list of arrays it passed to
  \<open>predict_fn\<close>, in order, together with its result or the exception raised; \<open>tbind\<close>
  sequences two computations, \<open>lift\<close> is a step that makes no call, \<open>call\<close> is one call.
\<close>

definition tbind ::
  "'c list \<times> (error + 'a) \<Rightarrow> ('a \<Rightarrow> 'c list \<times> (error + 'b)) \<Rightarrow> 'c list \<times> (error + 'b)" where
  "tbind m f =
     (case m of
        (t, Inl e) \<Rightarrow> (t, Inl e)
      | (t, Inr v) \<Rightarrow> (case f v of (t', r) \<Rightarrow> (t @ t', r)))"

definition lift :: "error + 'a \<Rightarrow> 'c list \<times> (error + 'a)" where
  "lift r = ([], r)"

definition call :: "(real ndarray \<Rightarrow> real ndarray) \<Rightarrow> real ndarray
     \<Rightarrow> real ndarray list \<times> (error + fl ndarray)" where
  "call predict_fn a = ([a], Inr (to_fl (predict_fn a)))"

text \<open>
  Arithmetic on float cells, exact on real numbers: the weighted sum, and the square of the
  difference. A cell that has no real value stays so. \<open>fl_log_eps\<close> is \<open>log(p + 1e-10)\<close>,
  which is \<open>nan\<close> or \<open>-inf\<close> unless \<open>p + 1e-10 > 0\<close>. \<open>fl_mean\<close> is numpy's mean of a
  slice: \<open>nan\<close> for an empty slice.
\<close>

definition fl_lin :: "real \<Rightarrow> real \<Rightarrow> fl \<Rightarrow> fl \<Rightarrow> fl" where
  "fl_lin a0 a1 u v =
     (case (u, v) of (Some p, Some q) \<Rightarrow> Some (a0 * p + a1 * q) | _ \<Rightarrow> None)"

definition fl_sqdiff :: "fl \<Rightarrow> fl \<Rightarrow> fl" where
  "fl_sqdiff u v = (case (u, v) of (Some p, Some q) \<Rightarrow> Some ((p - q)\<^sup>2) | _ \<Rightarrow> None)"

definition fl_log_eps :: "fl \<Rightarrow> fl" where
  "fl_log_eps u =
     (case u of
        Some p \<Rightarrow> if 0 < p + 1 / 10 ^ 10 then Some (ln (p + 1 / 10 ^ 10)) else None
      | None \<Rightarrow> None)"

definition fl_mean :: "fl list \<Rightarrow> fl" where
  "fl_mean cells =
     (if cells = [] then None
      else map_option (\<lambda>vs. sum_list vs / real (length vs)) (those cells))"

text \<open>
\<open>np.log(a + 1e-10)\<close>, cell by cell.
\<close>

definition np_log_eps :: "fl ndarray \<Rightarrow> fl ndarray" where
  "np_log_eps a = \<lparr>shape = shape a, data = map fl_log_eps (data a)\<rparr>"

text \<open>
  \<open>np.repeat(a.reshape((a.shape[0], 1) + a.shape[1:]), k, axis=1)\<close>: every slice \<open>a[i]\<close> is
  repeated \<open>k\<close> times along a new second axis. \<open>a.shape[0]\<close> raises IndexError on a 0-d
  array.
\<close>

definition repeat_axis1 :: "'a ndarray \<Rightarrow> nat \<Rightarrow> error + 'a ndarray" where
  "repeat_axis1 a k =
     (case shape a of
        [] \<Rightarrow> Inl IndexError
      | n # rest \<Rightarrow>
          Inr \<lparr>shape = n # k # rest,
               data = concat (map (\<lambda>i. concat (replicate k (row a i))) [0..<n])\<rparr>)"

text \<open>
  \<open>np.matmul(np.array([a, b]).T, alphas).T\<close>. \<open>np.array([a, b])\<close> needs two arrays of one
  shape \<open>s\<close> and has shape \<open>(2,) + s\<close>; its transpose has the axes reversed, so the product
  with the vector \<open>alphas\<close> contracts the axis of length 2 (which needs \<open>len(alphas) = 2\<close>);
  transposing back gives shape \<open>s\<close> with cell \<open>alphas[0] * a[..] + alphas[1] * b[..]\<close>. The
  weighted sum of two cells is a parameter, so that the operation serves real and float
  arrays.
\<close>

definition superpose_with ::
  "(real \<Rightarrow> real \<Rightarrow> 'a \<Rightarrow> 'a \<Rightarrow> 'a) \<Rightarrow> 'a ndarray \<Rightarrow> 'a ndarray \<Rightarrow> real list
     \<Rightarrow> error + 'a ndarray" where
  "superpose_with lin a b alphas =
     (if shape a \<noteq> shape b then Inl ValueError
      else if length alphas \<noteq> 2 then Inl ValueError
      else Inr \<lparr>shape = shape a,
                data = map2 (lin (alphas ! 0) (alphas ! 1)) (data a) (data b)\<rparr>)"

text \<open>
  \<open>(a - b) ** 2\<close> for two arrays of one shape. (numpy would broadcast two different but
  compatible shapes; in the scorers the two shapes differ only if \<open>predict_fn\<close> returns
  different numbers of channels on two calls, which is treated as an error here.)
\<close>

definition sq_diff :: "fl ndarray \<Rightarrow> fl ndarray \<Rightarrow> error + fl ndarray" where
  "sq_diff a b =
     (if shape a = shape b
      then Inr \<lparr>shape = shape a, data = map2 fl_sqdiff (data a) (data b)\<rparr>
      else Inl ValueError)"

text \<open>
  \<open>a.mean(tuple(range(1, a.ndim)))\<close>: the mean over all axes but the first, one cell per
  first index (for a 0-d array no axis is reduced).
\<close>

definition mean_tail :: "fl ndarray \<Rightarrow> fl ndarray" where
  "mean_tail a =
     (case shape a of
        [] \<Rightarrow> a
      | n # rest \<Rightarrow> \<lparr>shape = [n], data = map (\<lambda>i. fl_mean (row a i)) [0..<n]\<rparr>)"

text \<open>
  \<open>a.reshape((a.shape[0] * a.shape[1],) + tail)\<close>: \<open>a.shape[1]\<close> raises IndexError on an
  array with fewer than two axes.
\<close>

definition merge_axes :: "'a ndarray \<Rightarrow> nat list \<Rightarrow> error + 'a ndarray" where
  "merge_axes a tail_shape =
     (if length (shape a) < 2 then Inl IndexError
      else np_reshape a ((shape a ! 0 * shape a ! 1) # tail_shape))"

text \<open>
\<open>s[-1:]\<close> for a shape \<open>s\<close>.
\<close>

definition last_dim :: "nat list \<Rightarrow> nat list" where
  "last_dim s = drop (length s - 1) s"

text \<open>
  \<open>_calculate_linearity_regression\<close>, line by line: the model on the flattened samples and
  on the instances, the weighted sum of the two outputs, the weighted sum of the two
  inputs, the model on it, and the mean squared difference over the sample and channel
  axes. The \<open>verbose\<close> argument only switches logging and is left out, as are the timers.
\<close>

definition calculate_linearity_regression ::
  "(real ndarray \<Rightarrow> real ndarray) \<Rightarrow> real ndarray \<Rightarrow> nat list \<Rightarrow> real ndarray \<Rightarrow> real list
     \<Rightarrow> real ndarray list \<times> (error + fl ndarray \<times> fl ndarray \<times> fl ndarray)" where
  "calculate_linearity_regression predict_fn x input_shape X_samples alphas =
     (let ss = take 2 (shape X_samples)
      in tbind (lift (merge_axes X_samples input_shape)) (\<lambda>X_samples.
         tbind (call predict_fn X_samples) (\<lambda>outs.
         tbind (lift (np_reshape outs (ss @ [1]))) (\<lambda>outs.
         tbind (call predict_fn x) (\<lambda>x_out.
         tbind (lift (np_reshape x_out (shape x_out @ [1]))) (\<lambda>x_out.
         tbind (lift (repeat_axis1 x_out (shape outs ! 1))) (\<lambda>x_out_stack.
         tbind (lift (superpose_with fl_lin x_out_stack outs alphas)) (\<lambda>sum_out.
         tbind (lift (np_reshape X_samples (ss @ input_shape))) (\<lambda>X_samples.
         tbind (lift (repeat_axis1 x (shape X_samples ! 1))) (\<lambda>x_stack.
         tbind (lift (superpose_with (\<lambda>a0 a1 u v. a0 * u + a1 * v) x_stack X_samples alphas))
           (\<lambda>summ.
         tbind (lift (merge_axes summ (drop 2 (shape summ)))) (\<lambda>summ.
         tbind (call predict_fn summ) (\<lambda>out_sum.
         tbind (lift (np_reshape out_sum (ss @ [1]))) (\<lambda>out_sum.
         tbind (lift (sq_diff out_sum sum_out)) (\<lambda>d.
           lift (Inr (out_sum, sum_out, mean_tail d)))))))))))))))))"

text \<open>
  \<open>_calculate_linearity_measure\<close>: the same with every model output passed through
  \<open>log(. + 1e-10)\<close>, and the channel axis \<open>outs.shape[-1:]\<close> kept.
\<close>

definition calculate_linearity_measure ::
  "(real ndarray \<Rightarrow> real ndarray) \<Rightarrow> real ndarray \<Rightarrow> nat list \<Rightarrow> real ndarray \<Rightarrow> real list
     \<Rightarrow> real ndarray list \<times> (error + fl ndarray \<times> fl ndarray \<times> fl ndarray)" where
  "calculate_linearity_measure predict_fn x input_shape X_samples alphas =
     (let ss = take 2 (shape X_samples)
      in tbind (lift (merge_axes X_samples input_shape)) (\<lambda>X_samples.
         tbind (call predict_fn X_samples) (\<lambda>outs.
         let outs = np_log_eps outs
         in tbind (call predict_fn x) (\<lambda>x_out.
         let x_out = np_log_eps x_out
         in tbind (lift (np_reshape outs (ss @ last_dim (shape outs)))) (\<lambda>outs.
         tbind (lift (repeat_axis1 x_out (shape outs ! 1))) (\<lambda>x_out_stack.
         tbind (lift (superpose_with fl_lin x_out_stack outs alphas)) (\<lambda>sum_out.
         tbind (lift (np_reshape X_samples (ss @ input_shape))) (\<lambda>X_samples.
         tbind (lift (repeat_axis1 x (shape X_samples ! 1))) (\<lambda>x_stack.
         tbind (lift (superpose_with (\<lambda>a0 a1 u v. a0 * u + a1 * v) x_stack X_samples alphas))
           (\<lambda>summ.
         tbind (lift (merge_axes summ (drop 2 (shape summ)))) (\<lambda>summ.
         tbind (call predict_fn summ) (\<lambda>out_sum.
         let out_sum = np_log_eps out_sum
         in tbind (lift (np_reshape out_sum (ss @ last_dim (shape out_sum)))) (\<lambda>out_sum.
         tbind (lift (sq_diff out_sum sum_out)) (\<lambda>d.
           lift (Inr (out_sum, sum_out, mean_tail d))))))))))))))))"

text \<open>
  \<open>_linearity_measure\<close> (an Isabelle name cannot start with an underscore, and
  \<open>linearity_measure\<close> is the public function below). The sampling method is checked and
  the sample drawn before the model type is looked at.
\<close>

definition u_linearity_measure ::
  "(real ndarray \<Rightarrow> real ndarray) \<Rightarrow> real ndarray \<Rightarrow> real ndarray option
     \<Rightarrow> (real \<times> real) list option \<Rightarrow> string \<Rightarrow> real \<Rightarrow> int \<Rightarrow> int \<Rightarrow> real list option
     \<Rightarrow> string \<Rightarrow> rng \<Rightarrow> real ndarray list \<times> (error + fl ndarray)" where
  "u_linearity_measure predict_fn x X_train features_range method epsilon nb_samples res
       alphas model_type g =
     (let input_shape = drop 1 (shape x)
      in if \<not> (method = ''knn'' \<or> method = ''gridSampling'') then lift (Inl AssertionError)
         else
           tbind (lift
             (if method = ''knn''
              then (case X_train of
                      None \<Rightarrow> Inl AssertionError
                    | Some X_train \<Rightarrow> sample_knn x X_train nb_samples)
              else (case features_range of
                      None \<Rightarrow> Inl AssertionError
                    | Some fr \<Rightarrow> sample_gridSampling x (Some fr) epsilon nb_samples res g)))
           (\<lambda>X_sampled.
              let alphas = (case alphas of None \<Rightarrow> [1 / 2, 1 / 2] | Some al \<Rightarrow> al)
              in if model_type = ''classifier''
                 then tbind (calculate_linearity_measure predict_fn x input_shape X_sampled alphas)
                        (\<lambda>(out_sum, sum_out, score). lift (Inr score))
                 else if model_type = ''regressor''
                 then tbind (calculate_linearity_regression predict_fn x input_shape X_sampled alphas)
                        (\<lambda>(out_sum, sum_out, score). lift (Inr score))
                 else lift (Inl NameError)))"

subsection \<open>The feature range, the class and the public function\<close>

text \<open>
  \<open>_infer_features_range\<close>: the minimum and the maximum of every column of the flattened
  training set.
\<close>

definition infer_features_range :: "real ndarray \<Rightarrow> error + (real \<times> real) list" where
  "infer_features_range X_train =
     bind_err (reshape_rows X_train) (\<lambda>X_train.
       Inr (map (\<lambda>e. let col = map (\<lambda>i. at2 X_train i e) [0..<shape X_train ! 0]
                       in (Min (set col), Max (set col)))
              [0..<shape X_train ! 1]))"

text \<open>
  The class \<open>LinearityMeasure\<close>. The attributes \<open>X_train\<close>, \<open>features_range\<close> and
  \<open>input_shape\<close> do not exist before \<open>fit\<close> has run: they are \<open>None\<close> then.
\<close>

record LinearityMeasure =
  self_method :: string
  self_epsilon :: real
  self_nb_samples :: int
  self_res :: int
  self_alphas :: "real list option"
  self_model_type :: string
  self_verbose :: bool
  self_is_fit :: bool
  self_X_train :: "real ndarray option"
  self_features_range :: "(real \<times> real) list option"
  self_input_shape :: "nat list option"

text \<open>
\<open>LinearityMeasure.__init__\<close>.
\<close>

definition LinearityMeasure_init :: "string \<Rightarrow> real \<Rightarrow> int \<Rightarrow> int \<Rightarrow> real list option \<Rightarrow> string \<Rightarrow> bool
     \<Rightarrow> LinearityMeasure" where
  "LinearityMeasure_init method epsilon nb_samples res alphas model_type verbose =
     \<lparr>self_method = method, self_epsilon = epsilon, self_nb_samples = nb_samples,
      self_res = res, self_alphas = alphas, self_model_type = model_type,
      self_verbose = verbose, self_is_fit = False, self_X_train = None,
      self_features_range = None, self_input_shape = None\<rparr>"

text \<open>
  \<open>LinearityMeasure.fit\<close> returns the exception raised, if any, and the object as the call
  leaves it: \<open>X_train\<close> is stored before the range is inferred.
\<close>

definition LinearityMeasure_fit :: "LinearityMeasure \<Rightarrow> real ndarray \<Rightarrow> error option \<times> LinearityMeasure" where
  "LinearityMeasure_fit self X_train =
     (let self1 = self\<lparr>self_X_train := Some X_train\<rparr>
      in case infer_features_range X_train of
           Inl e \<Rightarrow> (Some e, self1)
         | Inr fr \<Rightarrow>
             (None, self1\<lparr>self_features_range := Some fr,
                          self_input_shape := Some (drop 1 (shape X_train)),
                          self_is_fit := True\<rparr>))"

text \<open>
  \<open>s[i]\<close> for a shape tuple, and Python's iteration over an integer, which raises
  \<open>TypeError: 'int' object is not iterable\<close> whatever the integer.
\<close>

definition shape_at :: "nat list \<Rightarrow> nat \<Rightarrow> error + nat" where
  "shape_at s i = (if i < length s then Inr (s ! i) else Inl IndexError)"

definition iter_int :: "nat \<Rightarrow> error + unit list" where
  "iter_int n = Inl TypeError"

text \<open>
  \<open>LinearityMeasure.linearity_measure\<close>. For the grid method on an object that is not fit,
  the source evaluates \<open>[[0, 1] for _ in x.shape[1]]\<close>: it reads \<open>x.shape[1]\<close> and iterates
  over that integer. No path changes the object, so only the result is returned.
\<close>

definition LinearityMeasure_linearity_measure ::
  "LinearityMeasure \<Rightarrow> (real ndarray \<Rightarrow> real ndarray) \<Rightarrow> real ndarray \<Rightarrow> rng
     \<Rightarrow> real ndarray list \<times> (error + fl ndarray)" where
  "LinearityMeasure_linearity_measure self predict_fn x g =
     (let input_shape = drop 1 (shape x)
      in if self_is_fit self \<and> Some input_shape \<noteq> self_input_shape self
         then lift (Inl AssertionError)
         else if self_method self = ''knn''
         then (if \<not> self_is_fit self then lift (Inl AssertionError)
               else u_linearity_measure predict_fn x (self_X_train self) None
                      (self_method self) (self_epsilon self) (self_nb_samples self)
                      (self_res self) (self_alphas self) (self_model_type self) g)
         else if self_method self = ''gridSampling''
         then tbind (lift
                (if \<not> self_is_fit self
                 then bind_err (shape_at (shape x) 1) (\<lambda>d.
                        bind_err (iter_int d) (\<lambda>its.
                          Inr (Some (map (\<lambda>_. (0, 1)) its))))
                 else Inr (self_features_range self)))
              (\<lambda>features_range.
                 u_linearity_measure predict_fn x None features_range
                   (self_method self) (self_epsilon self) (self_nb_samples self)
                   (self_res self) (self_alphas self) (self_model_type self) g)
         else lift (Inl NameError))"

text \<open>
The public function \<open>linearity_measure\<close>.
\<close>

definition linearity_measure ::
  "(real ndarray \<Rightarrow> real ndarray) \<Rightarrow> real ndarray \<Rightarrow> (real \<times> real) list option \<Rightarrow> string
     \<Rightarrow> real ndarray option \<Rightarrow> real \<Rightarrow> int \<Rightarrow> int \<Rightarrow> real list option \<Rightarrow> string \<Rightarrow> rng
     \<Rightarrow> real ndarray list \<times> (error + fl ndarray)" where
  "linearity_measure predict_fn x features_range method X_train epsilon nb_samples res alphas
       model_type g =
     (if method = ''knn''
      then (case X_train of
              None \<Rightarrow> lift (Inl AssertionError)
            | Some _ \<Rightarrow>
                u_linearity_measure predict_fn x X_train None method epsilon nb_samples res
                  alphas model_type g)
      else if method = ''gridSampling''
      then (if features_range = None \<and> X_train = None then lift (Inl AssertionError)
            else tbind (lift
                   (case (X_train, features_range) of
                      (Some Xt, None) \<Rightarrow> bind_err (infer_features_range Xt) (\<lambda>fr. Inr (Some fr))
                    | _ \<Rightarrow> Inr features_range))
                 (\<lambda>features_range.
                    u_linearity_measure predict_fn x None features_range method epsilon
                      nb_samples res alphas model_type g))
      else lift (Inl NameError))"

subsection \<open>Predicates of the statements\<close>

text \<open>
  Every cell of a float array is a finite real; \<open>predict_fn\<close> is a classifier's (for every
  batch a well-formed 2-d array with at least one channel and no negative cell);
  \<open>predict_fn\<close> returns one row of shape \<open>out_shape\<close> per instance; \<open>predict_fn\<close> fits the
  model type (one scalar per instance for a regressor, one row of channels for a
  classifier).
\<close>

definition all_some :: "fl ndarray \<Rightarrow> bool" where
  "all_some a \<longleftrightarrow> None \<notin> set (data a)"

definition proba_fn :: "(real ndarray \<Rightarrow> real ndarray) \<Rightarrow> bool" where
  "proba_fn predict_fn \<longleftrightarrow>
     (\<forall>a. wf_array (predict_fn a) \<and> length (shape (predict_fn a)) = 2
          \<and> 0 < shape (predict_fn a) ! 1 \<and> (\<forall>v \<in> set (data (predict_fn a)). 0 \<le> v))"

definition batch_fn :: "(real ndarray \<Rightarrow> real ndarray) \<Rightarrow> nat list \<Rightarrow> bool" where
  "batch_fn predict_fn out_shape \<longleftrightarrow> (\<forall>a. shape (predict_fn a) = shape a ! 0 # out_shape)"

definition model_fn :: "string \<Rightarrow> (real ndarray \<Rightarrow> real ndarray) \<Rightarrow> bool" where
  "model_fn model_type predict_fn \<longleftrightarrow>
     (model_type = ''regressor'' \<and> batch_fn predict_fn [])
     \<or> (model_type = ''classifier'' \<and> (\<exists>C. batch_fn predict_fn [C]))"

text \<open>
  The affine model \<open>v \<mapsto> A \<cdot> v + b\<close> on a batch of instances read as flat feature vectors: one
  scalar per instance.
\<close>

definition dot :: "real list \<Rightarrow> real list \<Rightarrow> real" where
  "dot A v = sum_list (map2 (*) A v)"

definition affine_fn :: "real list \<Rightarrow> real \<Rightarrow> real ndarray \<Rightarrow> real ndarray" where
  "affine_fn A b a =
     \<lparr>shape = [shape a ! 0], data = map (\<lambda>i. dot A (row a i) + b) [0..<shape a ! 0]\<rparr>"

subsection \<open>Rounding to float64\<close>





subsection \<open>Concrete runs\<close>

text \<open>
  The scenario of the specification: the instance \<open>[[1, 1]]\<close> with the feature range
  \<open>[[0, 2], [0, 2]]\<close>, and a random source whose raw draws are all 1.
\<close>

definition x_scn :: "real ndarray" where
  "x_scn = \<lparr>shape = [1, 2], data = [1, 1]\<rparr>"

definition range_scn :: "(real \<times> real) list" where
  "range_scn = [(0, 2), (0, 2)]"

definition ones_rng :: rng where
  "ones_rng i = 1"


text \<open>
  Inputs for the nearest-neighbour sampler: the training set \<open>[[0,0],[1,1],[2,2]]\<close> of the specification, and
  one instance and two training instances of shape \<open>(2, 2)\<close>.
\<close>

definition knn_rank2_out :: "real ndarray" where
  "knn_rank2_out = \<lparr>shape = [1, 1, 2], data = [1, 1]\<rparr>"

definition train3 :: "real ndarray" where
  "train3 = \<lparr>shape = [3, 2], data = [0, 0, 1, 1, 2, 2]\<rparr>"

definition x_img :: "real ndarray" where
  "x_img = \<lparr>shape = [1, 2, 2], data = [1, 1, 1, 1]\<rparr>"

definition train_img :: "real ndarray" where
  "train_img = \<lparr>shape = [2, 2, 2], data = [0, 0, 0, 0, 1, 1, 1, 1]\<rparr>"

definition knn_img_out :: "real ndarray" where
  "knn_img_out = \<lparr>shape = [1, 1, 4], data = [1, 1, 1, 1]\<rparr>"

definition knn_scn_out :: "real ndarray" where
  "knn_scn_out = \<lparr>shape = [1, 2, 2], data = [1, 1, 0, 0]\<rparr>"

text \<open>
  The scenario of the specification continued: the model \<open>v[:,0] + v[:,1]\<close>, the same model
  plus one, the arrays that a run on the scenario passes through, and three objects of the
  class.
\<close>

definition sum_fn :: "real ndarray \<Rightarrow> real ndarray" where
  "sum_fn = affine_fn [1, 1] 0"

definition sum1_fn :: "real ndarray \<Rightarrow> real ndarray" where
  "sum1_fn = affine_fn [1, 1] 1"

definition grid_scn_out3 :: "real ndarray" where
  "grid_scn_out3 = \<lparr>shape = [1, 3, 2],
                     data = [26 / 25, 26 / 25, 26 / 25, 26 / 25, 26 / 25, 26 / 25]\<rparr>"

definition grid_scn_out0 :: "real ndarray" where
  "grid_scn_out0 = \<lparr>shape = [1, 0, 2], data = []\<rparr>"

definition scn_flat3 :: "real ndarray" where
  "scn_flat3 = \<lparr>shape = [3, 2], data = [26 / 25, 26 / 25, 26 / 25, 26 / 25, 26 / 25, 26 / 25]\<rparr>"

definition scn_summ3 :: "real ndarray" where
  "scn_summ3 = \<lparr>shape = [3, 2], data = [51 / 50, 51 / 50, 51 / 50, 51 / 50, 51 / 50, 51 / 50]\<rparr>"

definition scn_out3 :: "fl ndarray" where
  "scn_out3 = \<lparr>shape = [1, 3, 1], data = [Some (51 / 25), Some (51 / 25), Some (51 / 25)]\<rparr>"

definition score_zero :: "fl ndarray" where
  "score_zero = \<lparr>shape = [1], data = [Some 0]\<rparr>"

definition score_one :: "fl ndarray" where
  "score_one = \<lparr>shape = [1], data = [Some 1]\<rparr>"

definition score_nan :: "fl ndarray" where
  "score_nan = \<lparr>shape = [1], data = [None]\<rparr>"

definition scn_flat0 :: "real ndarray" where
  "scn_flat0 = \<lparr>shape = [0, 2], data = []\<rparr>"

definition scn_out0 :: "fl ndarray" where
  "scn_out0 = \<lparr>shape = [1, 0, 1], data = []\<rparr>"

definition scn_summ3b :: "real ndarray" where
  "scn_summ3b = \<lparr>shape = [3, 2], data = [51 / 25, 51 / 25, 51 / 25, 51 / 25, 51 / 25, 51 / 25]\<rparr>"

definition scn_out_sum1 :: "fl ndarray" where
  "scn_out_sum1 = \<lparr>shape = [1, 3, 1], data = [Some (127 / 25), Some (127 / 25), Some (127 / 25)]\<rparr>"

definition scn_sum_out1 :: "fl ndarray" where
  "scn_sum_out1 = \<lparr>shape = [1, 3, 1], data = [Some (152 / 25), Some (152 / 25), Some (152 / 25)]\<rparr>"

definition lm_unfit_knn :: LinearityMeasure where
  "lm_unfit_knn = LinearityMeasure_init ''knn'' (1 / 25) 10 100 None ''classifier'' False"

definition lm_unfit_grid :: LinearityMeasure where
  "lm_unfit_grid = LinearityMeasure_init ''gridSampling'' (1 / 25) 3 100 None ''regressor'' False"

definition lm_fit_grid :: LinearityMeasure where
  "lm_fit_grid = lm_unfit_grid\<lparr>self_X_train := Some train3,
      self_features_range := Some range_scn, self_input_shape := Some [2],
      self_is_fit := True\<rparr>"



subsection \<open>Facts about arrays\<close>

lemma flat3_bound:
  assumes "i < n" "j < k" "e < (d::nat)"
  shows "(i * k + j) * d + e < n * k * d"
proof -
  have "i * k + j < n * k"
  proof -
    have "i * k + j < i * k + k" using assms by simp
    also have "\<dots> = (Suc i) * k" by simp
    also have "\<dots> \<le> n * k" using assms by (intro mult_le_mono1) simp
    finally show ?thesis .
  qed
  then have "(i * k + j) * d + e < (i * k + j) * d + d" using assms by simp
  also have "\<dots> = Suc (i * k + j) * d" by simp
  also have "\<dots> \<le> (n * k) * d" using \<open>i * k + j < n * k\<close> by (intro mult_le_mono1) simp
  finally show ?thesis .
qed

lemma shape_tabulate3 [simp]: "shape (tabulate3 n k d f) = [n, k, d]"
  by (simp add: tabulate3_def)

lemma wf_tabulate3 [simp]: "wf_array (tabulate3 n k d f)"
  by (simp add: tabulate3_def wf_array_def)

lemma at3_tabulate3:
  assumes "i < n" "j < k" "e < d"
  shows "at3 (tabulate3 n k d f) i j e = f i j e"
proof -
  have b: "(i * k + j) * d + e < n * k * d" using assms by (rule flat3_bound)
  have 1: "((i * k + j) * d + e) div d = i * k + j" using assms by simp
  have 2: "((i * k + j) * d + e) mod d = e" using assms by simp
  have 3: "(i * k + j) div k = i" "(i * k + j) mod k = j" using assms by simp_all
  show ?thesis
    using b assms by (simp add: at3_def tabulate3_def 1 2 3)
qed

lemma randint_ok:
  assumes "0 < high" "0 \<le> k"
  shows "randint high [int n, k, int d] g =
     Inr (\<lparr>shape = [n, nat k, d], data = map (\<lambda>i. int (g i) mod high) [0..<n * nat k * d]\<rparr>,
          \<lambda>i. g (i + n * nat k * d))"
  using assms by (simp add: randint_def Let_def mult.assoc)


subsection \<open>Grid sampling: the sampled offsets\<close>

text \<open>
  For a batch of \<open>n > 0\<close> instances with \<open>D > 0\<close> flattened features, one range row per
  feature, \<open>res \<noteq> 0\<close> and \<open>nb_samples \<ge> 0\<close>, the sampler returns an array of shape
  \<open>(n, nb_samples, D)\<close> whose cell \<open>[i, j, e]\<close> is the instance's cell plus
  \<open>sign * steps * delta\<close>, with \<open>sign\<close> in \<open>{-1, 1}\<close> and
  \<open>1 \<le> steps \<le> max 2 (round (epsilon * res))\<close>.
\<close>

lemma sample_grid_cells:
  assumes sh: "shape x = n # rest" and n: "0 < n" and D: "0 < prod_list rest"
    and fr: "length fr = prod_list rest" and res: "res \<noteq> 0" and K: "0 \<le> K"
  shows "\<exists>S. sample_gridSampling x (Some fr) epsilon K res g = Inr S
           \<and> shape S = [n, nat K, prod_list rest]
           \<and> (\<forall>i<n. \<forall>j<nat K. \<forall>e<prod_list rest.
                 \<exists>sg m. (sg = -1 \<or> sg = 1) \<and> 1 \<le> m
                   \<and> m \<le> max 2 (np_round (epsilon * of_int res))
                   \<and> at3 S i j e = instance_cell x i e
                        + of_int (sg * m) * (\<bar>snd (fr ! e) - fst (fr ! e)\<bar> * (1 / of_int res)))"
proof -
  define d where "d = prod_list rest"
  define k where "k = nat K"
  define sz where "sz = (if np_round (epsilon * of_int res) \<le> 2 then 2 else np_round (epsilon * of_int res))"
  define deltas where "deltas = map (\<lambda>(lo, hi). \<bar>hi - lo\<bar> * (1 / of_int res)) fr"
  define x' where "x' = \<lparr>shape = [n, d], data = data x\<rparr>"
  define c1 where "c1 = (\<lambda>p. int (g p) mod 2)"
  define c2 where "c2 = (\<lambda>p. int (g (p + n * k * d)) mod sz)"
  define rnd where "rnd = \<lparr>shape = [n, k, d],
     data = map2 (*) (map (\<lambda>v. 2 * v - 1) (map c1 [0..<n * k * d]))
                     (map (\<lambda>v. v + 1) (map c2 [0..<n * k * d]))\<rparr>"
  define vprime where "vprime = tabulate3 n k d (\<lambda>i j e. of_int (at3 rnd i j (if d = 1 then 0 else e))
                           * deltas ! (if length deltas = 1 then 0 else e))"
  define S where "S = tabulate3 n k d (\<lambda>i j e. at2 x' i (if d = 1 then 0 else e)
                           + at3 vprime i j (if d = 1 then 0 else e))"
  have szpos: "0 < sz" "2 \<le> sz" by (simp_all add: sz_def)
  have szmax: "sz = max 2 (np_round (epsilon * of_int res))" by (simp add: sz_def max_def)
  have rr: "reshape_rows x = Inr x'"
    using sh n by (simp add: reshape_rows_def x'_def d_def)
  have r1: "randint 2 [int n, K, int d] g =
      Inr (\<lparr>shape = [n, k, d], data = map c1 [0..<n * k * d]\<rparr>, \<lambda>i. g (i + n * k * d))"
    using K by (simp add: randint_ok k_def c1_def)
  have r2: "randint sz [int n, K, int d] (\<lambda>i. g (i + n * k * d)) =
      Inr (\<lparr>shape = [n, k, d], data = map c2 [0..<n * k * d]\<rparr>,
           \<lambda>i. g (i + n * k * d + n * k * d))"
    using K szpos by (simp add: randint_ok k_def c2_def)
  have md: "mul_deltas rnd deltas = Inr vprime"
    using fr by (simp add: mul_deltas_def rnd_def vprime_def deltas_def d_def Let_def)
  have ac: "add_centre x' vprime = Inr S"
    by (simp add: add_centre_def x'_def vprime_def S_def Let_def)
  define R1 where "R1 = \<lparr>shape = [n, k, d], data = map c1 [0..<n * k * d]\<rparr>"
  define R2 where "R2 = \<lparr>shape = [n, k, d], data = map c2 [0..<n * k * d]\<rparr>"
  define body where "body = (\<lambda>(r1 :: int ndarray) (r2 :: int ndarray).
      let rnd_sign = r1\<lparr>data := map (\<lambda>v. 2 * v - 1) (data r1)\<rparr>;
          rnd1 = r2\<lparr>data := map (\<lambda>v. v + 1) (data r2)\<rparr>;
          rnd = rnd1\<lparr>data := map2 (*) (data rnd_sign) (data rnd1)\<rparr>
      in bind_err (mul_deltas rnd deltas) (\<lambda>vprime. add_centre x' vprime))"
  have step1: "sample_gridSampling x (Some fr) epsilon K res g =
      bind_err (randint 2 [int n, K, int d] g) (\<lambda>(r1, g1).
        bind_err (randint sz [int n, K, int d] g1) (\<lambda>(r2, g2). body r1 r2))"
    using D res
    by (simp add: sample_gridSampling_def sh rr bind_err_def Let_def body_def sz_def deltas_def
        x'_def d_def)
  have step2: "bind_err (randint 2 [int n, K, int d] g) (\<lambda>(r1, g1).
        bind_err (randint sz [int n, K, int d] g1) (\<lambda>(r2, g2). body r1 r2)) = body R1 R2"
    by (simp only: r1 r2 bind_err_def sum.case prod.case R1_def R2_def)
  have rnd_eq: "R2\<lparr>data := map (\<lambda>v. v + 1) (data R2)\<rparr>
        \<lparr>data := map2 (*) (data (R1\<lparr>data := map (\<lambda>v. 2 * v - 1) (data R1)\<rparr>))
                 (data (R2\<lparr>data := map (\<lambda>v. v + 1) (data R2)\<rparr>))\<rparr> = rnd"
    by (simp add: R1_def R2_def rnd_def)
  have step3: "body R1 R2 = Inr S"
    unfolding body_def Let_def rnd_eq md by (simp add: bind_err_def ac)
  have run: "sample_gridSampling x (Some fr) epsilon K res g = Inr S"
    using step1 step2 step3 by simp
  have cells: "\<exists>sg m. (sg = -1 \<or> sg = 1) \<and> 1 \<le> m \<and> m \<le> sz
        \<and> at3 S i j e = instance_cell x i e
              + of_int (sg * m) * (\<bar>snd (fr ! e) - fst (fr ! e)\<bar> * (1 / of_int res))"
    if i: "i < n" and j: "j < k" and e: "e < d" for i j e
  proof -
    define p where "p = (i * k + j) * d + e"
    have p: "p < n * k * d" unfolding p_def using i j e by (rule flat3_bound)
    have e0: "(if d = 1 then 0 else e) = e" using e by auto
    have e1: "(if length deltas = 1 then 0 else e) = e" using e fr by (auto simp: deltas_def d_def)
    have a: "at3 S i j e = at2 x' i e + at3 vprime i j e"
      using i j e by (auto simp: S_def at3_tabulate3)
    have b: "at3 vprime i j e = of_int (at3 rnd i j e) * deltas ! e"
      using i j e e1 by (auto simp: vprime_def at3_tabulate3)
    have c: "at3 rnd i j e = (2 * c1 p - 1) * (c2 p + 1)"
      using p by (simp add: at3_def rnd_def p_def)
    have dl: "deltas ! e = \<bar>snd (fr ! e) - fst (fr ! e)\<bar> * (1 / of_int res)"
      using e fr by (simp add: deltas_def d_def case_prod_beta)
    have xc: "at2 x' i e = instance_cell x i e"
      by (simp add: at2_def x'_def instance_cell_def sh d_def)
    have s1: "2 * c1 p - 1 = -1 \<or> 2 * c1 p - 1 = 1"
    proof -
      have "0 \<le> c1 p" "c1 p < 2" by (simp_all add: c1_def)
      then have "c1 p = 0 \<or> c1 p = 1" by linarith
      then show ?thesis by auto
    qed
    have "0 \<le> c2 p" "c2 p < sz"
      using szpos by (simp_all add: c2_def)
    then have s2: "1 \<le> c2 p + 1" "c2 p + 1 \<le> sz"
      by simp_all
    show ?thesis
      using s1 s2 a b c dl xc by metis
  qed
  show ?thesis
    using run cells by (auto simp: S_def szmax d_def k_def)
qed









subsection \<open>Nearest-neighbour sampling: what is returned\<close>

lemma reshape_rows_Inr:
  "reshape_rows a = Inr b \<Longrightarrow>
     \<exists>n rest. shape a = n # rest \<and> 0 < n \<and> b = \<lparr>shape = [n, prod_list rest], data = data a\<rparr>"
  by (auto simp: reshape_rows_def split: list.splits if_splits)

lemma reshape_rows_idem:
  "reshape_rows a = Inr b \<Longrightarrow> reshape_rows b = Inr b"
  by (auto simp: reshape_rows_def split: list.splits if_splits)

lemma row_reshape_rows:
  "reshape_rows a = Inr b \<Longrightarrow> row b i = row a i"
  by (auto simp: reshape_rows_def row_def split: list.splits if_splits)

lemma kneighbors_Inr:
  "kneighbors Xt K q = Inr idxs \<Longrightarrow>
     0 < K \<and> K \<le> int (shape Xt ! 0) \<and> length q = shape Xt ! 1
     \<and> idxs = take (nat K) (sort_key (\<lambda>j. sqdist q (row Xt j)) [0..<shape Xt ! 0])"
  by (auto simp: kneighbors_def Let_def split: if_splits)

lemma knn_loop_result:
  assumes "knn_loop x X_train K is = Inr out" and "reshape_rows X_train = Inr Xt"
  shows "out = map (\<lambda>i. take_rows Xt (knn_indices x Xt K i)) is
         \<and> (is \<noteq> [] \<longrightarrow> 0 < K \<and> K \<le> int (shape Xt ! 0)
               \<and> (\<forall>i \<in> set is. length (row x i) = shape Xt ! 1))"
  using assms
proof (induction "is" arbitrary: X_train out)
  case Nil
  then show ?case by simp
next
  case (Cons i "is")
  from Cons.prems obtain idxs rest where
    kn: "kneighbors Xt K (row x i) = Inr idxs"
    and rec: "knn_loop x Xt K is = Inr rest"
    and out: "out = take_rows Xt idxs # rest"
    by (auto simp: bind_err_def Let_def split: sum.splits)
  have idem: "reshape_rows Xt = Inr Xt" using Cons.prems(2) by (rule reshape_rows_idem)
  from Cons.IH [OF rec idem] have
    r: "rest = map (\<lambda>i. take_rows Xt (knn_indices x Xt K i)) is"
    and l: "is \<noteq> [] \<longrightarrow> (\<forall>i \<in> set is. length (row x i) = shape Xt ! 1)" by auto
  from kneighbors_Inr [OF kn] have
    k: "0 < K" "K \<le> int (shape Xt ! 0)" "length (row x i) = shape Xt ! 1"
    and ix: "idxs = knn_indices x Xt K i"
    by (auto simp: knn_indices_def)
  show ?case using out r l k ix by auto
qed

lemma length_knn_indices:
  "0 \<le> K \<Longrightarrow> K \<le> int (shape Xt ! 0) \<Longrightarrow> length (knn_indices x Xt K i) = nat K"
  by (simp add: knn_indices_def)

lemma take_drop_concat_uniform:
  assumes "\<forall>xs \<in> set xss. length xs = m" and "i < length xss"
  shows "take m (drop (i * m) (concat xss)) = xss ! i"
  using assms
proof (induction xss arbitrary: i)
  case Nil
  then show ?case by simp
next
  case (Cons a xss)
  show ?case
  proof (cases i)
    case 0
    then show ?thesis using Cons.prems by simp
  next
    case (Suc i')
    then have "take m (drop (i * m) (concat (a # xss))) = take m (drop (i' * m) (concat xss))"
      using Cons.prems by simp
    then show ?thesis using Cons.IH [of i'] Cons.prems Suc by simp
  qed
qed

lemma length_concat_uniform:
  "\<forall>xs \<in> set xss. length xs = m \<Longrightarrow> length (concat xss) = length xss * m"
  by (induction xss) auto

lemma concat_blocks: "concat (map (\<lambda>i. concat (f i)) xs) = concat (concat (map f xs))"
  by (induction xs) auto

lemma nth_concat_uniform:
  assumes "\<forall>xs \<in> set xss. length xs = m" and "i < length xss" and "j < m"
  shows "concat xss ! (i * m + j) = xss ! i ! j"
proof -
  have "xss ! i = take m (drop (i * m) (concat xss))"
    using assms(1,2) by (simp add: take_drop_concat_uniform)
  then have "xss ! i ! j = take m (drop (i * m) (concat xss)) ! j" by simp
  also have "\<dots> = drop (i * m) (concat xss) ! j" using assms(3) by simp
  also have "\<dots> = concat xss ! (i * m + j)"
  proof -
    have "length (concat xss) = length xss * m" using assms(1) by (rule length_concat_uniform)
    moreover have "i * m + j < length xss * m"
    proof -
      have "i * m + j < Suc i * m" using assms(3) by simp
      also have "\<dots> \<le> length xss * m" using assms(2) by (intro mult_le_mono1) simp
      finally show ?thesis .
    qed
    moreover have "i * m \<le> length xss * m"
      using assms(2) by (intro mult_le_mono1) simp
    ultimately have "i * m \<le> length (concat xss)" by simp
    then show ?thesis by (simp add: nth_drop)
  qed
  finally show ?thesis by simp
qed

lemma length_row:
  assumes "wf_array a" and "shape a = n # rest" and "i < n"
  shows "length (row a i) = prod_list rest"
proof -
  have "i * prod_list rest + prod_list rest = Suc i * prod_list rest" by simp
  also have "\<dots> \<le> n * prod_list rest" using assms(3) by (intro mult_le_mono1) simp
  finally have "i * prod_list rest + prod_list rest \<le> length (data a)"
    using assms(1,2) by (simp add: wf_array_def)
  then show ?thesis using assms(2) by (simp add: row_def Let_def)
qed

lemma knn_indices_bounds:
  "set (knn_indices x Xt K i) \<subseteq> {..<shape Xt ! 0}"
proof -
  have "set (knn_indices x Xt K i) \<subseteq> set (sort_key (\<lambda>j. sqdist (row x i) (row Xt j)) [0..<shape Xt ! 0])"
    unfolding knn_indices_def by (rule set_take_subset)
  then show ?thesis by auto
qed

lemma sample_knn_Inr:
  assumes run: "sample_knn x X_train K = Inr S"
  shows "\<exists>n rest nt trest.
           shape x = n # rest \<and> 0 < n \<and> shape X_train = nt # trest \<and> 0 < nt
           \<and> 0 < K \<and> K \<le> int nt
           \<and> S = \<lparr>shape = [n, nat K, prod_list trest],
                   data = concat (concat (map (\<lambda>i. map (row X_train) (knn_indices x X_train K i))
                                           [0..<n]))\<rparr>"
proof -
  from run obtain x' outs where rx: "reshape_rows x = Inr x'"
    and loop: "knn_loop x' X_train K [0..<shape x' ! 0] = Inr outs"
    and arr: "np_array outs = Inr S"
    by (auto simp: sample_knn_def bind_err_def Let_def split: sum.splits)
  from reshape_rows_Inr [OF rx] obtain n rest where shx: "shape x = n # rest" and n: "0 < n"
    and x': "x' = \<lparr>shape = [n, prod_list rest], data = data x\<rparr>" by blast
  have sx0: "shape x' ! 0 = n" by (simp add: x')
  have ne: "[0..<n] \<noteq> []" using n by simp
  from loop ne obtain Xt where rt: "reshape_rows X_train = Inr Xt"
    by (cases "[0..<n]") (auto simp: sx0 bind_err_def split: sum.splits)
  from reshape_rows_Inr [OF rt] obtain nt trest where sht: "shape X_train = nt # trest"
    and nt: "0 < nt" and Xt: "Xt = \<lparr>shape = [nt, prod_list trest], data = data X_train\<rparr>"
    by blast
  have st0: "shape Xt ! 0 = nt" "shape X_train ! 0 = nt" by (simp_all add: Xt sht)
  from knn_loop_result [OF loop rt] ne have
    outs: "outs = map (\<lambda>i. take_rows Xt (knn_indices x' Xt K i)) [0..<n]"
    and K: "0 < K" "K \<le> int nt"
    by (auto simp: sx0 st0)
  define k where "k = nat K"
  define D where "D = prod_list trest"
  have idx_eq: "knn_indices x' Xt K i = knn_indices x X_train K i" for i
    by (simp add: knn_indices_def row_reshape_rows [OF rx] row_reshape_rows [OF rt] st0)
  have rowt: "row Xt m = row X_train m" for m by (rule row_reshape_rows [OF rt])
  have len_idx: "length (knn_indices x X_train K i) = k" for i
    using K by (simp add: length_knn_indices st0 k_def)
  define rws where "rws = (\<lambda>i. map (row X_train) (knn_indices x X_train K i))"
  have outs': "outs = map (\<lambda>i. \<lparr>shape = [k, D], data = concat (rws i)\<rparr>) [0..<n]"
  proof -
    have shXt: "shape Xt = [nt, D]" by (simp add: Xt D_def)
    have rowt': "row Xt = row X_train" by (rule ext) (rule rowt)
    show ?thesis
      by (simp add: outs take_rows_def idx_eq rowt' len_idx shXt rws_def)
  qed
  have S: "S = \<lparr>shape = [n, k, D], data = concat (map (\<lambda>i. concat (rws i)) [0..<n])\<rparr>"
  proof -
    obtain a as where c: "outs = a # as" using outs' ne by (cases outs) auto
    have a: "shape a = [k, D]" using c outs' n by (cases "[0..<n]") auto
    have all: "\<forall>b \<in> set outs. shape b = [k, D]" using outs' by auto
    have len: "length outs = n" using outs' by simp
    have "S = \<lparr>shape = length outs # shape a, data = concat (map data outs)\<rparr>"
      using arr c all a by (simp add: np_array_def split: if_splits)
    then show ?thesis by (simp add: len a) (simp add: outs' comp_def)
  qed
  show ?thesis
    using shx n sht nt K S by (simp add: k_def D_def rws_def concat_blocks)
qed

lemma sample_knn_result:
  assumes run: "sample_knn x X_train K = Inr S" and wf: "wf_array X_train"
  shows "\<exists>n rest nt trest.
           shape x = n # rest \<and> 0 < n \<and> shape X_train = nt # trest \<and> 0 < nt
           \<and> 0 < K \<and> K \<le> int nt
           \<and> shape S = [n, nat K, prod_list trest] \<and> wf_array S
           \<and> (\<forall>i<n. \<forall>j<nat K.
                 slice3 S i j = row X_train (knn_indices x X_train K i ! j))"
proof -
  define k where "k = nat K"
  define rws where "rws = (\<lambda>i. map (row X_train) (knn_indices x X_train K i))"
  from sample_knn_Inr [OF run] obtain n rest nt trest where
    shx: "shape x = n # rest" and n: "0 < n" and sht: "shape X_train = nt # trest"
    and nt: "0 < nt" and K: "0 < K" "K \<le> int nt"
    and S: "S = \<lparr>shape = [n, k, prod_list trest], data = concat (concat (map rws [0..<n]))\<rparr>"
    unfolding k_def rws_def by blast
  define D where "D = prod_list trest"
  define rows_all where "rows_all = concat (map rws [0..<n])"
  have st0: "shape X_train ! 0 = nt" by (simp add: sht)
  have len_idx: "length (knn_indices x X_train K i) = k" for i
    using K by (simp add: length_knn_indices st0 k_def)
  have dS: "data S = concat rows_all" by (simp add: S rows_all_def)
  have uni_k: "\<forall>xs \<in> set (map rws [0..<n]). length xs = k"
    by (auto simp: rws_def len_idx)
  have len_all: "length rows_all = n * k"
    using length_concat_uniform [OF uni_k] by (simp add: rows_all_def)
  have uni_D: "\<forall>xs \<in> set rows_all. length xs = D"
  proof
    fix xs assume "xs \<in> set rows_all"
    then obtain i' m where "i' < n" "m \<in> set (knn_indices x X_train K i')"
      and xs: "xs = row X_train m"
      by (auto simp: rows_all_def rws_def)
    then have "m < nt" using knn_indices_bounds [of x X_train K i'] by (auto simp: st0)
    then show "length xs = D" using length_row [OF wf sht] by (simp add: xs D_def)
  qed
  have wfS: "wf_array S"
    using length_concat_uniform [OF uni_D]
    by (simp add: wf_array_def S len_all D_def rows_all_def [symmetric] mult.assoc)
  have slice: "slice3 S i j = row X_train (knn_indices x X_train K i ! j)"
    if i: "i < n" and j: "j < k" for i j
  proof -
    have nth_all: "rows_all ! (i * k + j) = rws i ! j"
      using nth_concat_uniform [OF uni_k, of i j] i j by (simp add: rows_all_def)
    have lt: "i * k + j < length rows_all"
    proof -
      have "i * k + j < Suc i * k" using j by simp
      also have "\<dots> \<le> n * k" using i by (intro mult_le_mono1) simp
      finally show ?thesis by (simp add: len_all)
    qed
    have "slice3 S i j = take D (drop ((i * k + j) * D) (concat rows_all))"
      by (simp add: slice3_def S D_def rows_all_def Let_def)
    also have "\<dots> = rows_all ! (i * k + j)"
      using take_drop_concat_uniform [OF uni_D lt] .
    also have "\<dots> = row X_train (knn_indices x X_train K i ! j)"
      using j by (simp add: nth_all rws_def len_idx)
    finally show ?thesis .
  qed
  show ?thesis
    using shx n sht nt K S wfS slice by (auto simp: k_def D_def)
qed

lemma knn_indices_props:
  fixes x X_train K i
  defines "f \<equiv> (\<lambda>m. sqdist (row x i) (row X_train m))"
  defines "idxs \<equiv> knn_indices x X_train K i"
  shows "distinct idxs"
    and "sorted (map f idxs)"
    and "\<And>m s. m < shape X_train ! 0 \<Longrightarrow> m \<notin> set idxs \<Longrightarrow> s \<in> set idxs \<Longrightarrow> f s \<le> f m"
proof -
  define ys where "ys = sort_key f [0..<shape X_train ! 0]"
  have idxs: "idxs = take (nat K) ys" by (simp add: idxs_def knn_indices_def ys_def f_def)
  have dys: "distinct ys" by (simp add: ys_def)
  have sys: "sorted (map f ys)" by (simp add: ys_def)
  have setys: "set ys = {..<shape X_train ! 0}" by (auto simp: ys_def)
  show "distinct idxs" using dys by (simp add: idxs)
  have "map f idxs = take (nat K) (map f ys)" by (simp add: idxs take_map)
  then show "sorted (map f idxs)" using sys by (simp add: sorted_wrt_take)
  fix m s assume m: "m < shape X_train ! 0" and nin: "m \<notin> set idxs" and s: "s \<in> set idxs"
  have split: "ys = take (nat K) ys @ drop (nat K) ys" by simp
  have "m \<in> set ys" using m setys by simp
  then have "m \<in> set (take (nat K) ys) \<or> m \<in> set (drop (nat K) ys)"
    using split by (metis Un_iff set_append)
  then have md: "m \<in> set (drop (nat K) ys)" using nin idxs by simp
  have "sorted (map f (take (nat K) ys) @ map f (drop (nat K) ys))"
    using sys split by (metis map_append)
  then have "\<forall>a \<in> set (map f (take (nat K) ys)). \<forall>b \<in> set (map f (drop (nat K) ys)). a \<le> b"
    by (simp add: sorted_append)
  then show "f s \<le> f m" using s md idxs by auto
qed

lemma knn_scn_run: "sample_knn x_scn train3 2 = Inr knn_scn_out"
  by code_simp

lemma knn_img_run: "sample_knn x_img train_img 1 = Inr knn_img_out"
  by code_simp

lemma knn_rank2_run: "sample_knn x_scn train3 1 = Inr knn_rank2_out"
  by code_simp

text \<open>
  Claim C5. For each instance the sampler returns \<open>nb_samples\<close> distinct training rows, in
  non-decreasing Euclidean distance from the instance, and no training row left out is
  closer than a row returned. The sampler is a function of the batch, the training set
  and \<open>nb_samples\<close> alone (it reads no random source), so two runs on the same inputs
  return the same array.
\<close>

theorem sample_knn_nearest:
  assumes "sample_knn x X_train nb_samples = Inr S" and "wf_array X_train"
    and "i < shape x ! 0"
  shows "\<exists>idxs. length idxs = nat nb_samples \<and> distinct idxs
           \<and> set idxs \<subseteq> {..<shape X_train ! 0}
           \<and> (\<forall>j<nat nb_samples. slice3 S i j = row X_train (idxs ! j))
           \<and> sorted (map (\<lambda>m. euclid (row x i) (row X_train m)) idxs)
           \<and> (\<forall>m<shape X_train ! 0. m \<notin> set idxs \<longrightarrow>
                 (\<forall>s \<in> set idxs. euclid (row x i) (row X_train s)
                                  \<le> euclid (row x i) (row X_train m)))"
proof -
  define idxs where "idxs = knn_indices x X_train nb_samples i"
  from sample_knn_result [OF assms(1,2)] obtain n rest nt trest where
    shx: "shape x = n # rest" and sht: "shape X_train = nt # trest"
    and K: "0 < nb_samples" "nb_samples \<le> int nt"
    and sl: "\<forall>i<n. \<forall>j<nat nb_samples.
                 slice3 S i j = row X_train (knn_indices x X_train nb_samples i ! j)"
    by blast
  have i: "i < n" using assms(3) shx by simp
  have 1: "length idxs = nat nb_samples"
    using K sht by (simp add: idxs_def length_knn_indices)
  have 2: "distinct idxs" unfolding idxs_def by (rule knn_indices_props(1))
  have 3: "set idxs \<subseteq> {..<shape X_train ! 0}" unfolding idxs_def by (rule knn_indices_bounds)
  have 4: "\<forall>j<nat nb_samples. slice3 S i j = row X_train (idxs ! j)"
    using sl i by (simp add: idxs_def)
  have "sorted (map (\<lambda>m. sqdist (row x i) (row X_train m)) idxs)"
    unfolding idxs_def by (rule knn_indices_props(2))
  then have 5: "sorted (map (\<lambda>m. euclid (row x i) (row X_train m)) idxs)"
    by (simp add: sorted_map euclid_def sorted_wrt_iff_nth_less)
  have 6: "euclid (row x i) (row X_train s) \<le> euclid (row x i) (row X_train m)"
    if "m < shape X_train ! 0" "m \<notin> set idxs" "s \<in> set idxs" for m s
    using knn_indices_props(3) [of m X_train x nb_samples i s] that
    by (simp add: idxs_def euclid_def)
  show ?thesis using 1 2 3 4 5 6 by blast
qed

theorem sample_knn_nearest_witness:
  "\<exists>idxs. length idxs = nat 2 \<and> distinct idxs
           \<and> set idxs \<subseteq> {..<shape train3 ! 0}
           \<and> (\<forall>j<nat 2. slice3 knn_scn_out 0 j = row train3 (idxs ! j))
           \<and> sorted (map (\<lambda>m. euclid (row x_scn 0) (row train3 m)) idxs)
           \<and> (\<forall>m<shape train3 ! 0. m \<notin> set idxs \<longrightarrow>
                 (\<forall>s \<in> set idxs. euclid (row x_scn 0) (row train3 s)
                                  \<le> euclid (row x_scn 0) (row train3 m)))"
proof -
  have w: "wf_array train3" by (simp add: wf_array_def train3_def)
  have i: "0 < shape x_scn ! 0" by (simp add: x_scn_def)
  show ?thesis using sample_knn_nearest [OF knn_scn_run w i] .
qed

text \<open>
  Claim C6, as amended. The sampler returns the selected training instances as rows of the
  flattened training set: the result has shape \<open>(N, nb_samples, D)\<close> with \<open>D\<close> the number of
  cells of a training instance, each member holding the cells of one training instance;
  it has the shape \<open>(N, nb_samples) + input_shape\<close> when the training set is 2-d.
\<close>

theorem sample_knn_shape:
  assumes "sample_knn x X_train nb_samples = Inr S" and "wf_array X_train"
  shows "shape S = [shape x ! 0, nat nb_samples, prod_list (tl (shape X_train))]
         \<and> (\<forall>i<shape x ! 0. \<forall>j<nat nb_samples.
               \<exists>m<shape X_train ! 0. slice3 S i j = row X_train m)
         \<and> (length (shape X_train) = 2 \<longrightarrow>
               shape S = [shape x ! 0, nat nb_samples] @ tl (shape X_train))"
proof -
  from sample_knn_result [OF assms] obtain n rest nt trest where
    shx: "shape x = n # rest" and sht: "shape X_train = nt # trest"
    and K: "0 < nb_samples" "nb_samples \<le> int nt"
    and shS: "shape S = [n, nat nb_samples, prod_list trest]"
    and sl: "\<forall>i<n. \<forall>j<nat nb_samples.
                 slice3 S i j = row X_train (knn_indices x X_train nb_samples i ! j)"
    by blast
  have 1: "shape S = [shape x ! 0, nat nb_samples, prod_list (tl (shape X_train))]"
    by (simp add: shS shx sht)
  have 2: "\<exists>m<shape X_train ! 0. slice3 S i j = row X_train m"
    if "i < shape x ! 0" "j < nat nb_samples" for i j
  proof -
    have len: "length (knn_indices x X_train nb_samples i) = nat nb_samples"
      using K sht by (simp add: length_knn_indices)
    then have "knn_indices x X_train nb_samples i ! j \<in> set (knn_indices x X_train nb_samples i)"
      using that by simp
    then have "knn_indices x X_train nb_samples i ! j < shape X_train ! 0"
      using knn_indices_bounds [of x X_train nb_samples i] by auto
    moreover have "slice3 S i j = row X_train (knn_indices x X_train nb_samples i ! j)"
      using sl that shx by simp
    ultimately show ?thesis by blast
  qed
  have 3: "shape S = [shape x ! 0, nat nb_samples] @ tl (shape X_train)"
    if "length (shape X_train) = 2"
  proof -
    from that sht obtain d where "trest = [d]" by (cases trest) auto
    then show ?thesis by (simp add: 1 sht)
  qed
  show ?thesis using 1 2 3 by blast
qed

theorem sample_knn_shape_witness:
  "shape knn_rank2_out = [shape x_scn ! 0, nat 1, prod_list (tl (shape train3))]
   \<and> (\<exists>m<shape train3 ! 0. slice3 knn_rank2_out 0 0 = row train3 m)
   \<and> shape knn_rank2_out = [shape x_scn ! 0, nat 1] @ tl (shape train3)"
proof -
  have w: "wf_array train3" by (simp add: wf_array_def train3_def)
  have l: "length (shape train3) = 2" by (simp add: train3_def)
  have i: "0 < shape x_scn ! 0" by (simp add: x_scn_def)
  from sample_knn_shape [OF knn_rank2_run w] have
    1: "shape knn_rank2_out = [shape x_scn ! 0, nat 1, prod_list (tl (shape train3))]"
    and 2: "\<forall>i<shape x_scn ! 0. \<forall>j<nat 1.
              \<exists>m<shape train3 ! 0. slice3 knn_rank2_out i j = row train3 m"
    and 3: "length (shape train3) = 2 \<longrightarrow>
              shape knn_rank2_out = [shape x_scn ! 0, nat 1] @ tl (shape train3)"
    by blast+
  have j: "0 < nat 1" by simp
  from 1 2 3 l i j show ?thesis by blast
qed

text \<open>
  Claim C6 as the specification states it fails for instances of rank 2 or more: for
  training instances of shape \<open>(2, 2)\<close> the member returned has shape \<open>(4,)\<close>.
\<close>

theorem sample_knn_unflattened_counterexample:
  "sample_knn x_img train_img 1 = Inr knn_img_out
   \<and> shape knn_img_out \<noteq> [1, 1] @ tl (shape train_img)"
  by (simp add: knn_img_run) (simp add: knn_img_out_def train_img_def)

subsection \<open>Scoring: facts about the array operations\<close>

lemma tbind_lift_Inl [simp]: "tbind (lift (Inl e)) f = ([], Inl e)"
  by (simp add: tbind_def lift_def)

lemma tbind_lift_Inr [simp]: "tbind (lift (Inr v)) f = f v"
  by (simp add: tbind_def lift_def split: prod.splits)

lemma tbind_call [simp]:
  "tbind (call pf a) f = (a # fst (f (to_fl (pf a))), snd (f (to_fl (pf a))))"
  by (simp add: tbind_def call_def split: prod.splits)

lemma fst_lift [simp]: "fst (lift r) = []" and snd_lift [simp]: "snd (lift r) = r"
  by (simp_all add: lift_def)

lemma tbind_lift_cases:
  "tbind (lift r) f = (case r of Inl e \<Rightarrow> ([], Inl e) | Inr v \<Rightarrow> f v)"
  by (cases r) simp_all

lemma superpose_with_Inr:
  "superpose_with lin a b alphas = Inr c \<Longrightarrow>
     shape a = shape b \<and> length alphas = 2 \<and> shape c = shape b
     \<and> data c = map2 (lin (alphas ! 0) (alphas ! 1)) (data a) (data b)"
  by (auto simp: superpose_with_def split: if_splits)

lemma wf_np_reshape: "np_reshape a s = Inr b \<Longrightarrow> wf_array a \<Longrightarrow> wf_array b"
  by (auto simp: np_reshape_def wf_array_def split: if_splits)

lemma np_reshape_Inr:
  "np_reshape a s = Inr b \<Longrightarrow> shape b = s \<and> data b = data a \<and> prod_list s = prod_list (shape a)"
  by (auto simp: np_reshape_def split: if_splits)

lemma merge_axes_Inr:
  "merge_axes a r = Inr b \<Longrightarrow>
     2 \<le> length (shape a) \<and> shape b = (shape a ! 0 * shape a ! 1) # r \<and> data b = data a
     \<and> shape a ! 0 * shape a ! 1 * prod_list r = prod_list (shape a)"
  by (auto simp: merge_axes_def np_reshape_def split: if_splits)

lemma wf_to_fl [simp]: "wf_array (to_fl a) = wf_array a"
  by (simp add: to_fl_def wf_array_def)

lemma shape_to_fl [simp]: "shape (to_fl a) = shape a"
  by (simp add: to_fl_def)

lemma wf_np_log_eps [simp]: "wf_array (np_log_eps a) = wf_array a"
  by (simp add: np_log_eps_def wf_array_def)

lemma shape_np_log_eps [simp]: "shape (np_log_eps a) = shape a"
  by (simp add: np_log_eps_def)

lemma all_some_to_fl [simp]: "all_some (to_fl a)"
  by (auto simp: all_some_def to_fl_def)

lemma repeat_axis1_Inr:
  "repeat_axis1 a k = Inr b \<Longrightarrow>
     \<exists>n rest. shape a = n # rest \<and> shape b = n # k # rest
       \<and> data b = concat (concat (map (\<lambda>i. replicate k (row a i)) [0..<n]))"
  by (auto simp: repeat_axis1_def concat_blocks split: list.splits)

lemma repeat_rows_uniform:
  assumes "wf_array a" and "shape a = n # rest"
  shows "\<forall>xs \<in> set (concat (map (\<lambda>i. replicate k (row a i)) [0..<n])). length xs = prod_list rest"
  using length_row [OF assms] by auto

lemma repeat_rows_length:
  "length (concat (map (\<lambda>i. replicate k (f i)) [0..<n])) = n * k"
  by (induction n) auto

lemma repeat_rows_nth:
  assumes "p < n * k"
  shows "concat (map (\<lambda>i. replicate k (f i)) [0..<n]) ! p = f (p div k)"
proof -
  have k: "0 < k" using assms by (cases k) auto
  have uni: "\<forall>xs \<in> set (map (\<lambda>i. replicate k (f i)) [0..<n]). length xs = k" by auto
  have i: "p div k < length (map (\<lambda>i. replicate k (f i)) [0..<n])"
    using assms k by (simp add: less_mult_imp_div_less)
  have j: "p mod k < k" using k by simp
  have "concat (map (\<lambda>i. replicate k (f i)) [0..<n]) ! (p div k * k + p mod k)
        = map (\<lambda>i. replicate k (f i)) [0..<n] ! (p div k) ! (p mod k)"
    using nth_concat_uniform [OF uni i j] .
  also have "\<dots> = f (p div k)" using i j by simp
  finally show ?thesis by simp
qed

lemma wf_repeat_axis1:
  assumes "repeat_axis1 a k = Inr b" and "wf_array a"
  shows "wf_array b"
proof -
  from repeat_axis1_Inr [OF assms(1)] obtain n rest where sa: "shape a = n # rest"
    and sb: "shape b = n # k # rest"
    and db: "data b = concat (concat (map (\<lambda>i. replicate k (row a i)) [0..<n]))" by blast
  have "length (data b) = (n * k) * prod_list rest"
    unfolding db
    using length_concat_uniform [OF repeat_rows_uniform [OF assms(2) sa, of k]]
    by (simp add: repeat_rows_length)
  then show ?thesis by (simp add: wf_array_def sb)
qed

lemma repeat_axis1_row:
  assumes "repeat_axis1 a k = Inr b" and "wf_array a" and "p < shape a ! 0 * k"
  shows "take (prod_list (tl (shape a))) (drop (p * prod_list (tl (shape a))) (data b))
         = row a (p div k)"
proof -
  from repeat_axis1_Inr [OF assms(1)] obtain n rest where sa: "shape a = n # rest"
    and db: "data b = concat (concat (map (\<lambda>i. replicate k (row a i)) [0..<n]))" by blast
  have p: "p < length (concat (map (\<lambda>i. replicate k (row a i)) [0..<n]))"
    using assms(3) sa by (simp add: repeat_rows_length)
  have "take (prod_list rest) (drop (p * prod_list rest) (data b))
        = concat (map (\<lambda>i. replicate k (row a i)) [0..<n]) ! p"
    unfolding db
    using take_drop_concat_uniform [OF repeat_rows_uniform [OF assms(2) sa, of k] p] .
  also have "\<dots> = row a (p div k)"
    using assms(3) sa by (simp add: repeat_rows_nth)
  finally show ?thesis by (simp add: sa)
qed

lemma all_some_repeat_axis1:
  assumes "repeat_axis1 a k = Inr b" and "all_some a"
  shows "all_some b"
proof -
  from repeat_axis1_Inr [OF assms(1)] obtain n rest where
    db: "data b = concat (concat (map (\<lambda>i. replicate k (row a i)) [0..<n]))" by blast
  have "set (row a i) \<subseteq> set (data a)" for i
    by (simp add: row_def Let_def) (meson set_take_subset set_drop_subset subset_trans)
  then have "set (data b) \<subseteq> set (data a)" unfolding db by fastforce
  then show ?thesis using assms(2) by (auto simp: all_some_def)
qed

lemma wf_superpose_with:
  "superpose_with lin a b alphas = Inr c \<Longrightarrow> wf_array a \<Longrightarrow> wf_array b \<Longrightarrow> wf_array c"
  by (auto simp: superpose_with_def wf_array_def split: if_splits)

lemma all_some_superpose:
  "superpose_with fl_lin a b alphas = Inr c \<Longrightarrow> all_some a \<Longrightarrow> all_some b \<Longrightarrow> all_some c"
  by (auto simp: superpose_with_def all_some_def fl_lin_def set_zip
      split: if_splits option.splits dest!: nth_mem)

lemma sq_diff_Inr:
  "sq_diff a b = Inr d \<Longrightarrow>
     shape a = shape b \<and> shape d = shape a \<and> data d = map2 fl_sqdiff (data a) (data b)"
  by (auto simp: sq_diff_def split: if_splits)

lemma wf_sq_diff:
  "sq_diff a b = Inr d \<Longrightarrow> wf_array a \<Longrightarrow> wf_array b \<Longrightarrow> wf_array d"
  by (auto simp: sq_diff_def wf_array_def split: if_splits)

lemma all_some_sq_diff:
  "sq_diff a b = Inr d \<Longrightarrow> all_some a \<Longrightarrow> all_some b \<Longrightarrow> all_some d"
  by (auto simp: sq_diff_def all_some_def fl_sqdiff_def set_zip
      split: if_splits option.splits dest!: nth_mem)

lemma sq_diff_nonneg:
  "sq_diff a b = Inr d \<Longrightarrow> v \<in> set (data d) \<Longrightarrow> v = None \<or> (\<exists>r. v = Some r \<and> 0 \<le> r)"
  by (auto simp: sq_diff_def fl_sqdiff_def set_zip split: if_splits option.splits)

lemma those_all_some:
  "None \<notin> set cells \<Longrightarrow> those cells = Some (map the cells)"
proof (induction cells)
  case Nil
  then show ?case by simp
next
  case (Cons a cells)
  then obtain y where "a = Some y" by (cases a) auto
  then show ?case using Cons by simp
qed

lemma those_None:
  "None \<in> set cells \<Longrightarrow> those cells = None"
  by (induction cells) (auto split: option.splits)

lemma fl_mean_nonneg:
  assumes "\<forall>v \<in> set cells. v = None \<or> (\<exists>r. v = Some r \<and> 0 \<le> r)"
  shows "fl_mean cells = None \<or> (\<exists>r. fl_mean cells = Some r \<and> 0 \<le> r)"
proof (cases "cells = [] \<or> None \<in> set cells")
  case True
  then show ?thesis by (auto simp: fl_mean_def those_None)
next
  case False
  then have th: "those cells = Some (map the cells)" by (simp add: those_all_some)
  have "\<forall>r \<in> set (map the cells). 0 \<le> r" using assms False by force
  then have "0 \<le> sum_list (map the cells)" by (intro sum_list_nonneg) auto
  then have "0 \<le> sum_list (map the cells) / real (length cells)" by simp
  then show ?thesis using False th by (simp add: fl_mean_def)
qed

lemma fl_mean_defined:
  assumes "cells \<noteq> []" and "None \<notin> set cells"
  shows "\<exists>r. fl_mean cells = Some r"
  using assms by (simp add: fl_mean_def those_all_some)

subsection \<open>Scoring: the steps of a run that returns\<close>

lemma regression_Inr:
  assumes "calculate_linearity_regression predict_fn x input_shape X_samples alphas
             = (t, Inr (out_sum, sum_out, score))"
  shows "\<exists>Xs2 outs x_out x_out_stack Xs3 x_stack summ summ2 d.
           merge_axes X_samples input_shape = Inr Xs2
         \<and> np_reshape (to_fl (predict_fn Xs2)) (take 2 (shape X_samples) @ [1]) = Inr outs
         \<and> np_reshape (to_fl (predict_fn x)) (shape (predict_fn x) @ [1]) = Inr x_out
         \<and> repeat_axis1 x_out (shape outs ! 1) = Inr x_out_stack
         \<and> superpose_with fl_lin x_out_stack outs alphas = Inr sum_out
         \<and> np_reshape Xs2 (take 2 (shape X_samples) @ input_shape) = Inr Xs3
         \<and> repeat_axis1 x (shape Xs3 ! 1) = Inr x_stack
         \<and> superpose_with (\<lambda>a0 a1 u v. a0 * u + a1 * v) x_stack Xs3 alphas = Inr summ
         \<and> merge_axes summ (drop 2 (shape summ)) = Inr summ2
         \<and> np_reshape (to_fl (predict_fn summ2)) (take 2 (shape X_samples) @ [1]) = Inr out_sum
         \<and> sq_diff out_sum sum_out = Inr d
         \<and> score = mean_tail d
         \<and> t = [Xs2, x, summ2]"
  using assms
  unfolding calculate_linearity_regression_def Let_def
  by (auto simp: tbind_lift_cases split: sum.splits)

lemma measure_Inr:
  assumes "calculate_linearity_measure predict_fn x input_shape X_samples alphas
             = (t, Inr (out_sum, sum_out, score))"
  shows "\<exists>Xs2 outs x_out_stack Xs3 x_stack summ summ2 d.
           merge_axes X_samples input_shape = Inr Xs2
         \<and> np_reshape (np_log_eps (to_fl (predict_fn Xs2)))
              (take 2 (shape X_samples) @ last_dim (shape (predict_fn Xs2))) = Inr outs
         \<and> repeat_axis1 (np_log_eps (to_fl (predict_fn x))) (shape outs ! 1) = Inr x_out_stack
         \<and> superpose_with fl_lin x_out_stack outs alphas = Inr sum_out
         \<and> np_reshape Xs2 (take 2 (shape X_samples) @ input_shape) = Inr Xs3
         \<and> repeat_axis1 x (shape Xs3 ! 1) = Inr x_stack
         \<and> superpose_with (\<lambda>a0 a1 u v. a0 * u + a1 * v) x_stack Xs3 alphas = Inr summ
         \<and> merge_axes summ (drop 2 (shape summ)) = Inr summ2
         \<and> np_reshape (np_log_eps (to_fl (predict_fn summ2)))
              (take 2 (shape X_samples) @ last_dim (shape (predict_fn summ2))) = Inr out_sum
         \<and> sq_diff out_sum sum_out = Inr d
         \<and> score = mean_tail d
         \<and> t = [Xs2, x, summ2]"
  using assms
  unfolding calculate_linearity_measure_def Let_def
  by (auto simp: tbind_lift_cases split: sum.splits)

lemma set_row_subset: "set (row a i) \<subseteq> set (data a)"
  by (simp add: row_def Let_def) (meson set_take_subset set_drop_subset subset_trans)

lemma mean_tail_weak:
  assumes "sq_diff a b = Inr d" and "s \<in> set (data (mean_tail d))"
  shows "s = None \<or> (\<exists>r. s = Some r \<and> 0 \<le> r)"
proof (cases "shape d")
  case Nil
  then show ?thesis using assms sq_diff_nonneg [OF assms(1)] by (simp add: mean_tail_def)
next
  case (Cons n rest)
  with assms(2) obtain i where s: "s = fl_mean (row d i)" by (auto simp: mean_tail_def)
  have "\<forall>v \<in> set (row d i). v = None \<or> (\<exists>r. v = Some r \<and> 0 \<le> r)"
    using sq_diff_nonneg [OF assms(1)] set_row_subset [of d i] by blast
  from fl_mean_nonneg [OF this] show ?thesis by (simp add: s)
qed

lemma mean_tail_strong:
  assumes "sq_diff a b = Inr d" and "wf_array d" and "shape d = n # rest"
    and "0 < prod_list rest" and "all_some d" and "s \<in> set (data (mean_tail d))"
  shows "\<exists>r. s = Some r \<and> 0 \<le> r"
proof -
  from assms(3,6) obtain i where i: "i < n" and s: "s = fl_mean (row d i)"
    by (auto simp: mean_tail_def)
  have len: "length (row d i) = prod_list rest" using length_row [OF assms(2,3) i] .
  then have ne: "row d i \<noteq> []" using assms(4) by auto
  have some: "None \<notin> set (row d i)"
    using assms(5) set_row_subset [of d i] by (auto simp: all_some_def)
  from fl_mean_defined [OF ne some] obtain r where r: "fl_mean (row d i) = Some r" by blast
  have "s = None \<or> (\<exists>r. s = Some r \<and> 0 \<le> r)" using mean_tail_weak [OF assms(1,6)] .
  then show ?thesis using r s by auto
qed

lemma randint_Inr:
  "randint high shp g = Inr (r, g') \<Longrightarrow>
     0 < high \<and> (\<forall>n \<in> set shp. 0 \<le> n) \<and> shape r = map nat shp"
  by (auto simp: randint_def Let_def split: if_splits)

lemma sample_gridSampling_Inr:
  assumes "sample_gridSampling x fro epsilon K res g = Inr S"
  shows "wf_array S \<and> 0 \<le> K \<and> (\<exists>D. shape S = [shape x ! 0, nat K, D])
         \<and> (\<exists>n rest. shape x = n # rest \<and> 0 < n)"
proof -
  from assms obtain n rest where shx: "shape x = n # rest"
    by (cases "shape x") (auto simp: sample_gridSampling_def)
  from assms shx obtain fr r1 g1 r2 g2 vprime where
    r1: "randint 2 [int n, K, int (prod_list rest)] g = Inr (r1, g1)"
    and r2: "randint (if np_round (epsilon * of_int res) \<le> 2 then 2
                      else np_round (epsilon * of_int res))
               [int n, K, int (prod_list rest)] g1 = Inr (r2, g2)"
    and md: "mul_deltas (r2\<lparr>data := map2 (*) (map (\<lambda>v. 2 * v - 1) (data r1))
                                  (map (\<lambda>v. v + 1) (data r2))\<rparr>)
               (map (\<lambda>(lo, hi). \<bar>hi - lo\<bar> * (1 / of_int res)) fr) = Inr vprime"
    and ac: "add_centre \<lparr>shape = [n, prod_list rest], data = data x\<rparr> vprime = Inr S"
    and n: "0 < n"
    by (auto simp: sample_gridSampling_def reshape_rows_def bind_err_def Let_def
        split: sum.splits if_splits option.splits)
  from randint_Inr [OF r2] have K: "0 \<le> K" and s2: "shape r2 = [n, nat K, prod_list rest]"
    by auto
  from md s2 obtain E where sv: "shape vprime = [n, nat K, E]"
    by (auto simp: mul_deltas_def Let_def split: if_splits)
  from ac sv obtain E' f where "S = tabulate3 n (nat K) E' f"
    by (auto simp: add_centre_def Let_def split: if_splits)
  then show ?thesis using K shx n by auto
qed

lemma all_some_np_reshape:
  "np_reshape a s = Inr b \<Longrightarrow> all_some a \<Longrightarrow> all_some b"
  by (auto simp: np_reshape_def all_some_def split: if_splits)

lemma take2_shape:
  "2 \<le> length s \<Longrightarrow> take 2 s = [s ! 0, s ! 1]"
  by (cases s; cases "tl s") auto

lemma regression_scores:
  assumes run: "calculate_linearity_regression predict_fn x input_shape X_samples alphas
             = (t, Inr (out_sum, sum_out, score))"
    and wfp: "\<forall>a. wf_array (predict_fn a)" and k: "0 < shape X_samples ! 1"
    and s: "s \<in> set (data score)"
  shows "\<exists>r. s = Some r \<and> 0 \<le> r"
proof -
  from regression_Inr [OF run] obtain Xs2 outs x_out x_out_stack summ2 d where
    m: "merge_axes X_samples input_shape = Inr Xs2"
    and outs: "np_reshape (to_fl (predict_fn Xs2)) (take 2 (shape X_samples) @ [1]) = Inr outs"
    and x_out: "np_reshape (to_fl (predict_fn x)) (shape (predict_fn x) @ [1]) = Inr x_out"
    and xos: "repeat_axis1 x_out (shape outs ! 1) = Inr x_out_stack"
    and so: "superpose_with fl_lin x_out_stack outs alphas = Inr sum_out"
    and os: "np_reshape (to_fl (predict_fn summ2)) (take 2 (shape X_samples) @ [1]) = Inr out_sum"
    and d: "sq_diff out_sum sum_out = Inr d"
    and sc: "score = mean_tail d"
    by blast
  from merge_axes_Inr [OF m] have l2: "2 \<le> length (shape X_samples)" by simp
  define n where "n = shape X_samples ! 0"
  define k where "k = shape X_samples ! 1"
  have ss: "take 2 (shape X_samples) = [n, k]" using take2_shape [OF l2] by (simp add: n_def k_def)
  have w1: "wf_array outs" "all_some outs"
    using wf_np_reshape [OF outs] all_some_np_reshape [OF outs] wfp by simp_all
  have w2: "wf_array x_out" "all_some x_out"
    using wf_np_reshape [OF x_out] all_some_np_reshape [OF x_out] wfp by simp_all
  have w3: "wf_array x_out_stack" "all_some x_out_stack"
    using wf_repeat_axis1 [OF xos w2(1)] all_some_repeat_axis1 [OF xos w2(2)] by simp_all
  have w4: "wf_array sum_out" "all_some sum_out"
    using wf_superpose_with [OF so w3(1) w1(1)] all_some_superpose [OF so w3(2) w1(2)]
    by simp_all
  have w5: "wf_array out_sum" "all_some out_sum"
    using wf_np_reshape [OF os] all_some_np_reshape [OF os] wfp by simp_all
  have w6: "wf_array d" "all_some d"
    using wf_sq_diff [OF d w5(1) w4(1)] all_some_sq_diff [OF d w5(2) w4(2)] by simp_all
  have shd: "shape d = n # [k, 1]"
    using sq_diff_Inr [OF d] np_reshape_Inr [OF os] by (simp add: ss)
  have "0 < prod_list [k, 1]" using k by (simp add: k_def)
  from mean_tail_strong [OF d w6(1) shd this w6(2)] s sc show ?thesis by simp
qed

lemma all_some_log:
  "\<forall>v \<in> set (data a). 0 \<le> v \<Longrightarrow> all_some (np_log_eps (to_fl a))"
  by (auto simp: all_some_def np_log_eps_def to_fl_def fl_log_eps_def split: if_splits)

lemma last_dim_2: "length s = 2 \<Longrightarrow> last_dim s = [s ! 1]"
  by (cases s; cases "tl s") (auto simp: last_dim_def)

lemma measure_scores:
  assumes run: "calculate_linearity_measure predict_fn x input_shape X_samples alphas
             = (t, Inr (out_sum, sum_out, score))"
    and pf: "proba_fn predict_fn" and k: "0 < shape X_samples ! 1"
    and s: "s \<in> set (data score)"
  shows "\<exists>r. s = Some r \<and> 0 \<le> r"
proof -
  from measure_Inr [OF run] obtain Xs2 outs x_out_stack summ2 d where
    m: "merge_axes X_samples input_shape = Inr Xs2"
    and outs: "np_reshape (np_log_eps (to_fl (predict_fn Xs2)))
              (take 2 (shape X_samples) @ last_dim (shape (predict_fn Xs2))) = Inr outs"
    and xos: "repeat_axis1 (np_log_eps (to_fl (predict_fn x))) (shape outs ! 1) = Inr x_out_stack"
    and so: "superpose_with fl_lin x_out_stack outs alphas = Inr sum_out"
    and os: "np_reshape (np_log_eps (to_fl (predict_fn summ2)))
              (take 2 (shape X_samples) @ last_dim (shape (predict_fn summ2))) = Inr out_sum"
    and d: "sq_diff out_sum sum_out = Inr d"
    and sc: "score = mean_tail d"
    by blast
  have P: "wf_array (predict_fn a)" "length (shape (predict_fn a)) = 2"
    "0 < shape (predict_fn a) ! 1" "all_some (np_log_eps (to_fl (predict_fn a)))" for a
    using pf by (auto simp: proba_fn_def intro: all_some_log)
  from merge_axes_Inr [OF m] have l2: "2 \<le> length (shape X_samples)" by simp
  define n where "n = shape X_samples ! 0"
  define k where "k = shape X_samples ! 1"
  define C where "C = shape (predict_fn summ2) ! 1"
  have ss: "take 2 (shape X_samples) = [n, k]" using take2_shape [OF l2] by (simp add: n_def k_def)
  have w1: "wf_array outs" "all_some outs"
    using wf_np_reshape [OF outs] all_some_np_reshape [OF outs] P by simp_all
  have w2: "wf_array (np_log_eps (to_fl (predict_fn x)))" using P by simp
  have w3: "wf_array x_out_stack" "all_some x_out_stack"
    using wf_repeat_axis1 [OF xos w2] all_some_repeat_axis1 [OF xos P(4)] by simp_all
  have w4: "wf_array sum_out" "all_some sum_out"
    using wf_superpose_with [OF so w3(1) w1(1)] all_some_superpose [OF so w3(2) w1(2)]
    by simp_all
  have w5: "wf_array out_sum" "all_some out_sum"
    using wf_np_reshape [OF os] all_some_np_reshape [OF os] P by simp_all
  have w6: "wf_array d" "all_some d"
    using wf_sq_diff [OF d w5(1) w4(1)] all_some_sq_diff [OF d w5(2) w4(2)] by simp_all
  have shd: "shape d = n # [k, C]"
    using sq_diff_Inr [OF d] np_reshape_Inr [OF os] by (simp add: ss last_dim_2 P C_def)
  have "0 < prod_list [k, C]" using k P(3) by (simp add: k_def C_def)
  from mean_tail_strong [OF d w6(1) shd this w6(2)] s sc show ?thesis by simp
qed

subsection \<open>Scoring: calls to the model and sign of the score\<close>

lemma u_linearity_measure_Inr:
  assumes "u_linearity_measure predict_fn x X_train features_range method epsilon nb_samples
             res alphas model_type g = (t, Inr score)"
  shows "\<exists>X_sampled al out_sum sum_out.
           ((method = ''knn'' \<and> (\<exists>Xt. X_train = Some Xt \<and> sample_knn x Xt nb_samples = Inr X_sampled))
            \<or> (method = ''gridSampling'' \<and>
                 (\<exists>fr. features_range = Some fr
                    \<and> sample_gridSampling x (Some fr) epsilon nb_samples res g = Inr X_sampled)))
         \<and> al = (case alphas of None \<Rightarrow> [1 / 2, 1 / 2] | Some al \<Rightarrow> al)
         \<and> ((model_type = ''classifier''
               \<and> calculate_linearity_measure predict_fn x (drop 1 (shape x)) X_sampled al
                   = (t, Inr (out_sum, sum_out, score)))
            \<or> (model_type = ''regressor''
               \<and> calculate_linearity_regression predict_fn x (drop 1 (shape x)) X_sampled al
                   = (t, Inr (out_sum, sum_out, score))))"
  using assms
  unfolding u_linearity_measure_def Let_def
  by (auto simp: tbind_lift_cases tbind_def lift_def
      split: sum.splits if_splits option.splits prod.splits)

lemma regression_trace_le:
  "length (fst (calculate_linearity_regression predict_fn x input_shape X_samples alphas)) \<le> 3"
  unfolding calculate_linearity_regression_def Let_def
  by (auto simp: tbind_lift_cases split: sum.splits)

lemma measure_trace_le:
  "length (fst (calculate_linearity_measure predict_fn x input_shape X_samples alphas)) \<le> 3"
  unfolding calculate_linearity_measure_def Let_def
  by (auto simp: tbind_lift_cases split: sum.splits)

lemma fst_tbind_lift:
  "fst (tbind (lift r) f) = (case r of Inl e \<Rightarrow> [] | Inr v \<Rightarrow> fst (f v))"
  by (cases r) simp_all

lemma fst_tbind_score:
  "fst (tbind m (\<lambda>(out_sum, sum_out, score). lift (Inr score))) = fst m"
  by (cases m; cases "snd m") (auto simp: tbind_def lift_def split: prod.splits)

lemma u_linearity_measure_trace_le:
  "length (fst (u_linearity_measure predict_fn x X_train features_range method epsilon
                  nb_samples res alphas model_type g)) \<le> 3"
  unfolding u_linearity_measure_def Let_def
  by (auto simp: fst_tbind_lift fst_tbind_score regression_trace_le measure_trace_le
      split: sum.splits option.splits)

lemma sampled_shape:
  assumes "(method = ''knn'' \<and> (\<exists>Xt. X_train = Some Xt \<and> sample_knn x Xt nb_samples = Inr S))
            \<or> (method = ''gridSampling'' \<and>
                 (\<exists>fr. features_range = Some fr
                    \<and> sample_gridSampling x (Some fr) epsilon nb_samples res g = Inr S))"
  shows "0 \<le> nb_samples \<and> (\<exists>D. shape S = [shape x ! 0, nat nb_samples, D])"
proof -
  from assms consider
    (knn) Xt where "sample_knn x Xt nb_samples = Inr S"
  | (grid) fr where "sample_gridSampling x (Some fr) epsilon nb_samples res g = Inr S"
    by blast
  then show ?thesis
  proof cases
    case knn
    from sample_knn_Inr [OF knn] show ?thesis by auto
  next
    case grid
    from sample_gridSampling_Inr [OF grid] show ?thesis by auto
  qed
qed

lemma scorer_trace_shapes:
  assumes m: "merge_axes X_samples input_shape = Inr Xs2"
    and r3: "np_reshape Xs2 (take 2 (shape X_samples) @ input_shape) = Inr Xs3"
    and sp: "superpose_with lin x_stack Xs3 alphas = Inr summ"
    and m2: "merge_axes summ (drop 2 (shape summ)) = Inr summ2"
  shows "shape Xs2 = (shape X_samples ! 0 * shape X_samples ! 1) # input_shape
         \<and> shape summ2 = shape Xs2"
proof -
  from merge_axes_Inr [OF m] have l2: "2 \<le> length (shape X_samples)"
    and s2: "shape Xs2 = (shape X_samples ! 0 * shape X_samples ! 1) # input_shape" by auto
  have ss: "take 2 (shape X_samples) = [shape X_samples ! 0, shape X_samples ! 1]"
    using take2_shape [OF l2] .
  have "shape summ = take 2 (shape X_samples) @ input_shape"
    using superpose_with_Inr [OF sp] np_reshape_Inr [OF r3] by simp
  then have "shape summ = shape X_samples ! 0 # shape X_samples ! 1 # input_shape"
    by (simp add: ss)
  then show ?thesis using merge_axes_Inr [OF m2] s2 by simp
qed

text \<open>
  Claim C1, as amended. The specification counts two calls to \<open>predict_fn\<close>; the scorers
  make three, whatever the number of instances and samples: one on the batch of all
  samples (\<open>N * nb_samples\<close> rows), one on the batch of instances, one on the batch of all
  superpositions (\<open>N * nb_samples\<close> rows). A scoring call that fails has made at most
  three; no call is made per sample.
\<close>

theorem predict_fn_three_calls:
  assumes "u_linearity_measure predict_fn x X_train features_range method epsilon nb_samples
             res alphas model_type g = (t, r)"
  shows "length t \<le> 3
         \<and> (\<forall>score. r = Inr score \<longrightarrow>
               (\<exists>a c. t = [a, x, c]
                  \<and> shape a = (shape x ! 0 * nat nb_samples) # drop 1 (shape x)
                  \<and> shape c = shape a))"
proof -
  have le: "length t \<le> 3"
    using u_linearity_measure_trace_le [of predict_fn x X_train features_range "method" epsilon
        nb_samples res alphas model_type g] assms by simp
  have "\<exists>a c. t = [a, x, c] \<and> shape a = (shape x ! 0 * nat nb_samples) # drop 1 (shape x)
                \<and> shape c = shape a"
    if r: "r = Inr score" for score
  proof -
    from u_linearity_measure_Inr [OF assms [unfolded r]] obtain X_sampled al out_sum sum_out
      where smp: "(method = ''knn'' \<and> (\<exists>Xt. X_train = Some Xt
                      \<and> sample_knn x Xt nb_samples = Inr X_sampled))
            \<or> (method = ''gridSampling'' \<and>
                 (\<exists>fr. features_range = Some fr
                    \<and> sample_gridSampling x (Some fr) epsilon nb_samples res g = Inr X_sampled))"
      and sc: "(model_type = ''classifier''
               \<and> calculate_linearity_measure predict_fn x (drop 1 (shape x)) X_sampled al
                   = (t, Inr (out_sum, sum_out, score)))
            \<or> (model_type = ''regressor''
               \<and> calculate_linearity_regression predict_fn x (drop 1 (shape x)) X_sampled al
                   = (t, Inr (out_sum, sum_out, score)))"
      by blast
    from sampled_shape [OF smp] obtain D where
      shS: "shape X_sampled = [shape x ! 0, nat nb_samples, D]" by blast
    have "\<exists>Xs2 Xs3 x_stack summ summ2.
        merge_axes X_sampled (drop 1 (shape x)) = Inr Xs2
        \<and> np_reshape Xs2 (take 2 (shape X_sampled) @ drop 1 (shape x)) = Inr Xs3
        \<and> superpose_with (\<lambda>a0 a1 u v. a0 * u + a1 * v) x_stack Xs3 al = Inr summ
        \<and> merge_axes summ (drop 2 (shape summ)) = Inr summ2
        \<and> t = [Xs2, x, summ2]"
    proof -
      from sc consider
        (cls) "calculate_linearity_measure predict_fn x (drop 1 (shape x)) X_sampled al
                   = (t, Inr (out_sum, sum_out, score))"
      | (reg) "calculate_linearity_regression predict_fn x (drop 1 (shape x)) X_sampled al
                   = (t, Inr (out_sum, sum_out, score))"
        by blast
      then show ?thesis
      proof cases
        case cls
        from measure_Inr [OF cls] show ?thesis by blast
      next
        case reg
        from regression_Inr [OF reg] show ?thesis by blast
      qed
    qed
    then obtain Xs2 Xs3 x_stack summ summ2 where
      m: "merge_axes X_sampled (drop 1 (shape x)) = Inr Xs2"
      and r3: "np_reshape Xs2 (take 2 (shape X_sampled) @ drop 1 (shape x)) = Inr Xs3"
      and sp: "superpose_with (\<lambda>a0 a1 u v. a0 * u + a1 * v) x_stack Xs3 al = Inr summ"
      and m2: "merge_axes summ (drop 2 (shape summ)) = Inr summ2"
      and t: "t = [Xs2, x, summ2]"
      by blast
    from scorer_trace_shapes [OF m r3 sp m2] t shS show ?thesis by simp
  qed
  with le show ?thesis by blast
qed

text \<open>
  Claim C7, as amended, in exact arithmetic (float64 overflow aside). Every score returned
  that is a number is at least 0. With \<open>nb_samples \<ge> 1\<close>, a \<open>predict_fn\<close> that returns
  well-formed arrays and, for a classifier, rows of at least one non-negative channel,
  every score returned is a number and at least 0. (With \<open>nb_samples = 0\<close> the mean is
  taken over an empty slice, see \<open>score_nan_counterexample\<close>.)
\<close>

theorem scores_nonneg:
  assumes run: "u_linearity_measure predict_fn x X_train features_range method epsilon
             nb_samples res alphas model_type g = (t, Inr score)"
  shows "(\<forall>s \<in> set (data score). s = None \<or> (\<exists>r. s = Some r \<and> 0 \<le> r))
         \<and> (1 \<le> nb_samples \<and> (\<forall>a. wf_array (predict_fn a))
              \<and> (model_type = ''classifier'' \<longrightarrow> proba_fn predict_fn)
            \<longrightarrow> (\<forall>s \<in> set (data score). \<exists>r. s = Some r \<and> 0 \<le> r))"
proof -
  from u_linearity_measure_Inr [OF run] obtain X_sampled al out_sum sum_out
    where smp: "(method = ''knn'' \<and> (\<exists>Xt. X_train = Some Xt
                    \<and> sample_knn x Xt nb_samples = Inr X_sampled))
          \<or> (method = ''gridSampling'' \<and>
               (\<exists>fr. features_range = Some fr
                  \<and> sample_gridSampling x (Some fr) epsilon nb_samples res g = Inr X_sampled))"
    and sc: "(model_type = ''classifier''
             \<and> calculate_linearity_measure predict_fn x (drop 1 (shape x)) X_sampled al
                 = (t, Inr (out_sum, sum_out, score)))
          \<or> (model_type = ''regressor''
             \<and> calculate_linearity_regression predict_fn x (drop 1 (shape x)) X_sampled al
                 = (t, Inr (out_sum, sum_out, score)))"
    by blast
  from sampled_shape [OF smp] obtain D where
    shS: "shape X_sampled = [shape x ! 0, nat nb_samples, D]" by blast
  have "\<exists>d. sq_diff out_sum sum_out = Inr d \<and> score = mean_tail d"
  proof -
    from sc consider
      (cls) "calculate_linearity_measure predict_fn x (drop 1 (shape x)) X_sampled al
                 = (t, Inr (out_sum, sum_out, score))"
    | (reg) "calculate_linearity_regression predict_fn x (drop 1 (shape x)) X_sampled al
                 = (t, Inr (out_sum, sum_out, score))"
      by blast
    then show ?thesis
    proof cases
      case cls
      from measure_Inr [OF cls] show ?thesis by blast
    next
      case reg
      from regression_Inr [OF reg] show ?thesis by blast
    qed
  qed
  then obtain d where d: "sq_diff out_sum sum_out = Inr d" and sd: "score = mean_tail d"
    by blast
  have weak: "\<forall>s \<in> set (data score). s = None \<or> (\<exists>r. s = Some r \<and> 0 \<le> r)"
    using mean_tail_weak [OF d] sd by blast
  have strong: "\<exists>r. s = Some r \<and> 0 \<le> r"
    if K: "1 \<le> nb_samples" and wfp: "\<forall>a. wf_array (predict_fn a)"
      and cls: "model_type = ''classifier'' \<longrightarrow> proba_fn predict_fn"
      and s: "s \<in> set (data score)" for s
  proof -
    have k: "0 < shape X_sampled ! 1" using K shS by simp
    from sc show ?thesis
    proof (elim disjE conjE)
      assume "model_type = ''classifier''"
        and "calculate_linearity_measure predict_fn x (drop 1 (shape x)) X_sampled al
                 = (t, Inr (out_sum, sum_out, score))"
      then show ?thesis using measure_scores [OF _ _ k s] cls by blast
    next
      assume "calculate_linearity_regression predict_fn x (drop 1 (shape x)) X_sampled al
                 = (t, Inr (out_sum, sum_out, score))"
      then show ?thesis using regression_scores [OF _ wfp k s] by blast
    qed
  qed
  from weak strong show ?thesis by blast
qed

subsection \<open>Scoring: affine models\<close>

lemma dot_superpose:
  "length us = length vs \<Longrightarrow>
     dot A (map2 (\<lambda>u v. a0 * u + a1 * v) us vs) = a0 * dot A us + a1 * dot A vs"
proof (induction A arbitrary: us vs)
  case Nil
  then show ?case by (simp add: dot_def)
next
  case (Cons a A)
  show ?case
  proof (cases us)
    case Nil
    then show ?thesis using Cons.prems by (simp add: dot_def)
  next
    case (Cons u us')
    then obtain v vs' where vs: "vs = v # vs'" using Cons.prems by (cases vs) auto
    have "length us' = length vs'" using Cons.prems Cons vs by simp
    from Cons.IH [OF this] show ?thesis
      using Cons vs by (simp add: dot_def algebra_simps)
  qed
qed

lemma wf_affine_fn [simp]: "wf_array (affine_fn A b a)"
  by (simp add: affine_fn_def wf_array_def)

lemma shape_affine_fn [simp]: "shape (affine_fn A b a) = [shape a ! 0]"
  by (simp add: affine_fn_def)

lemma data_affine_fn:
  "data (affine_fn A b a) = map (\<lambda>i. dot A (row a i) + b) [0..<shape a ! 0]"
  by (simp add: affine_fn_def)

lemma row_map2:
  assumes "shape c = shape a" and "data c = map2 f (data a) (data b)" and "shape b = shape a"
  shows "row c p = map2 f (row a p) (row b p)"
  using assms by (simp add: row_def Let_def take_zip drop_zip take_map drop_map)

lemma fl_mean_zero:
  assumes "cells \<noteq> []" and "\<forall>v \<in> set cells. v = Some 0"
  shows "fl_mean cells = Some 0"
proof -
  have "None \<notin> set cells" using assms(2) by auto
  then have th: "those cells = Some (map the cells)" by (rule those_all_some)
  have "\<forall>r \<in> set (map the cells). r = 0" using assms(2) by auto
  then have "sum_list (map the cells) = 0" by (induction cells) auto
  then show ?thesis using assms(1) th by (simp add: fl_mean_def)
qed

lemma regression_affine:
  assumes run: "calculate_linearity_regression (affine_fn A b) x input_shape X_samples alphas
             = (t, Inr (out_sum, sum_out, score))"
    and wfx: "wf_array x" and wfS: "wf_array X_samples"
    and shx: "shape x = n # input_shape" and shS: "shape X_samples = [n, k, D]"
    and k: "0 < k" and n: "0 < n"
    and al: "alphas ! 0 + alphas ! 1 = 1 \<or> b = 0"
  shows "data score = replicate n (Some 0)"
proof -
  define pf where "pf = affine_fn A b"
  define w where "w = prod_list input_shape"
  define a0 where "a0 = alphas ! 0"
  define a1 where "a1 = alphas ! 1"
  from regression_Inr [OF run] obtain Xs2 outs x_out x_out_stack Xs3 x_stack summ summ2 d where
    m: "merge_axes X_samples input_shape = Inr Xs2"
    and outs: "np_reshape (to_fl (pf Xs2)) (take 2 (shape X_samples) @ [1]) = Inr outs"
    and x_out: "np_reshape (to_fl (pf x)) (shape (pf x) @ [1]) = Inr x_out"
    and xos: "repeat_axis1 x_out (shape outs ! 1) = Inr x_out_stack"
    and so: "superpose_with fl_lin x_out_stack outs alphas = Inr sum_out"
    and r3: "np_reshape Xs2 (take 2 (shape X_samples) @ input_shape) = Inr Xs3"
    and xs: "repeat_axis1 x (shape Xs3 ! 1) = Inr x_stack"
    and sp: "superpose_with (\<lambda>a0 a1 u v. a0 * u + a1 * v) x_stack Xs3 alphas = Inr summ"
    and m2: "merge_axes summ (drop 2 (shape summ)) = Inr summ2"
    and os: "np_reshape (to_fl (pf summ2)) (take 2 (shape X_samples) @ [1]) = Inr out_sum"
    and d: "sq_diff out_sum sum_out = Inr d"
    and sc: "score = mean_tail d"
    unfolding pf_def by blast
  have ss: "take 2 (shape X_samples) = [n, k]" by (simp add: shS)
  \<comment> \<open>the flattened samples\<close>
  have sX2: "shape Xs2 = (n * k) # input_shape" and dX2: "data Xs2 = data X_samples"
    and sz: "n * k * w = n * k * D"
    using merge_axes_Inr [OF m] by (auto simp: shS w_def)
  have wD: "w = D" using sz n k by simp
  have wfX2: "wf_array Xs2" using wfS by (simp add: wf_array_def sX2 dX2 shS w_def [symmetric] wD)
  \<comment> \<open>the model on the samples and on the instances\<close>
  have souts: "shape outs = [n, k, 1]"
    and douts: "data outs = map Some (map (\<lambda>p. dot A (row Xs2 p) + b) [0..<n * k])"
    using np_reshape_Inr [OF outs] by (simp_all add: ss pf_def to_fl_def data_affine_fn sX2)
  have sxo: "shape x_out = [n, 1]"
    and dxo: "data x_out = map Some (map (\<lambda>i. dot A (row x i) + b) [0..<n])"
    using np_reshape_Inr [OF x_out] by (simp_all add: pf_def to_fl_def data_affine_fn shx)
  have wfxo: "wf_array x_out" by (simp add: wf_array_def sxo dxo)
  have rowxo: "row x_out i = [Some (dot A (row x i) + b)]" if "i < n" for i
    using that by (simp add: row_def sxo dxo take_map drop_map take_Suc_conv_app_nth)
  have sxos: "shape x_out_stack = [n, k, 1]"
    using repeat_axis1_Inr [OF xos] by (auto simp: sxo souts)
  have wfxos: "wf_array x_out_stack" using wf_repeat_axis1 [OF xos wfxo] .
  have lxos: "length (data x_out_stack) = n * k" using wfxos by (simp add: wf_array_def sxos)
  have cxos: "data x_out_stack ! p = Some (dot A (row x (p div k)) + b)" if p: "p < n * k" for p
  proof -
    have pk: "p div k < n" using p k by (simp add: less_mult_imp_div_less)
    have "take 1 (drop p (data x_out_stack)) = row x_out (p div k)"
      using repeat_axis1_row [OF xos wfxo, of p] p by (simp add: sxo souts)
    then have "take 1 (drop p (data x_out_stack)) = [Some (dot A (row x (p div k)) + b)]"
      using rowxo [OF pk] by simp
    moreover have "take 1 (drop p (data x_out_stack)) = [data x_out_stack ! p]"
      using p lxos by (simp add: take_Suc_conv_app_nth)
    ultimately show ?thesis by simp
  qed
  \<comment> \<open>the superposition of the outputs\<close>
  have al2: "length alphas = 2"
    and dso: "data sum_out = map2 (fl_lin a0 a1) (data x_out_stack) (data outs)"
    and sso: "shape sum_out = [n, k, 1]"
    using superpose_with_Inr [OF so] by (simp_all add: a0_def a1_def souts)
  have cso: "data sum_out ! p = Some (a0 * (dot A (row x (p div k)) + b)
                                      + a1 * (dot A (row Xs2 p) + b))"
    if p: "p < n * k" for p
    using p lxos by (simp add: dso douts cxos fl_lin_def)
  have lso: "length (data sum_out) = n * k" by (simp add: dso douts lxos)
  \<comment> \<open>the superposition of the inputs\<close>
  have sX3: "shape Xs3 = n # k # input_shape" and dX3: "data Xs3 = data X_samples"
    using np_reshape_Inr [OF r3] by (simp_all add: ss dX2)
  have sxs: "shape x_stack = n # k # input_shape"
    using repeat_axis1_Inr [OF xs] by (auto simp: shx sX3)
  have rxs: "take w (drop (p * w) (data x_stack)) = row x (p div k)" if p: "p < n * k" for p
    using repeat_axis1_row [OF xs wfx, of p] p by (simp add: shx sX3 w_def)
  have ssm: "shape summ = n # k # input_shape"
    and dsm: "data summ = map2 (\<lambda>u v. a0 * u + a1 * v) (data x_stack) (data X_samples)"
    using superpose_with_Inr [OF sp] by (simp_all add: sX3 dX3 a0_def a1_def)
  have ssm2: "shape summ2 = (n * k) # input_shape" and dsm2: "data summ2 = data summ"
    using merge_axes_Inr [OF m2] by (simp_all add: ssm)
  have rsm2: "row summ2 p = map2 (\<lambda>u v. a0 * u + a1 * v) (row x (p div k)) (row Xs2 p)"
    if p: "p < n * k" for p
  proof -
    have "row summ2 p = map2 (\<lambda>u v. a0 * u + a1 * v)
              (take w (drop (p * w) (data x_stack))) (take w (drop (p * w) (data X_samples)))"
      by (simp add: row_def Let_def ssm2 dsm2 dsm w_def take_zip drop_zip take_map drop_map)
    also have "take w (drop (p * w) (data X_samples)) = row Xs2 p"
      by (simp add: row_def Let_def sX2 dX2 w_def)
    finally show ?thesis using rxs [OF p] by simp
  qed
  \<comment> \<open>the model on the superposition\<close>
  have sos: "shape out_sum = [n, k, 1]"
    and dos: "data out_sum = map Some (map (\<lambda>p. dot A (row summ2 p) + b) [0..<n * k])"
    using np_reshape_Inr [OF os] by (simp_all add: ss pf_def to_fl_def data_affine_fn ssm2)
  have cos: "data out_sum ! p = Some (a0 * dot A (row x (p div k)) + a1 * dot A (row Xs2 p) + b)"
    if p: "p < n * k" for p
  proof -
    have pk: "p div k < n" using p k by (simp add: less_mult_imp_div_less)
    have l1: "length (row x (p div k)) = w" using length_row [OF wfx shx pk] by (simp add: w_def)
    have l2: "length (row Xs2 p) = w" using length_row [OF wfX2 sX2 p] by (simp add: w_def)
    have "dot A (row summ2 p) = a0 * dot A (row x (p div k)) + a1 * dot A (row Xs2 p)"
      using dot_superpose [of "row x (p div k)" "row Xs2 p" A a0 a1] l1 l2
      by (simp add: rsm2 [OF p])
    then show ?thesis using p by (simp add: dos)
  qed
  \<comment> \<open>the discrepancy\<close>
  have sd: "shape d = [n, k, 1]" and dd: "data d = map2 fl_sqdiff (data out_sum) (data sum_out)"
    using sq_diff_Inr [OF d] by (simp_all add: sos)
  have ld: "length (data d) = n * k" by (simp add: dd dos lso)
  have lo: "length (data out_sum) = n * k" by (simp add: dos)
  have cd: "data d ! p = Some 0" if p: "p < n * k" for p
  proof -
    define X where "X = a0 * dot A (row x (p div k)) + a1 * dot A (row Xs2 p) + b"
    define Y where "Y = a0 * (dot A (row x (p div k)) + b) + a1 * (dot A (row Xs2 p) + b)"
    have "X - Y = b * (1 - (a0 + a1))"
      by (simp add: X_def Y_def algebra_simps)
    also have "\<dots> = 0" using al by (auto simp: a0_def a1_def)
    finally have z: "X - Y = 0" .
    have "data d ! p = fl_sqdiff (data out_sum ! p) (data sum_out ! p)"
      using p lo lso by (simp add: dd)
    also have "\<dots> = fl_sqdiff (Some X) (Some Y)"
      using cos [OF p] cso [OF p] by (simp add: X_def Y_def)
    also have "\<dots> = Some 0" using z by (simp add: fl_sqdiff_def)
    finally show ?thesis .
  qed
  have alld: "\<forall>v \<in> set (data d). v = Some 0"
    using cd ld by (auto simp: in_set_conv_nth)
  have wfd: "wf_array d" by (simp add: wf_array_def sd ld)
  have "fl_mean (row d i) = Some 0" if i: "i < n" for i
  proof -
    have "length (row d i) = prod_list [k, 1]" using length_row [OF wfd sd i] .
    then have "row d i \<noteq> []" using k by auto
    moreover have "\<forall>v \<in> set (row d i). v = Some 0"
      using alld set_row_subset [of d i] by blast
    ultimately show ?thesis by (rule fl_mean_zero)
  qed
  then have "data score = map (\<lambda>i. Some 0) [0..<n]"
    by (simp add: sc mean_tail_def sd)
  then show ?thesis by (simp add: map_replicate_const)
qed

text \<open>
  Claim C4, as amended. For the affine model \<open>v \<mapsto> A \<cdot> v + b\<close> as a regressor, with either
  sampling method and \<open>nb_samples \<ge> 1\<close>, every score returned is exactly 0 in real
  arithmetic, provided the two coefficients sum to 1 (as the default \<open>(0.5, 0.5)\<close> does) or
  \<open>b = 0\<close>: the two sides differ by \<open>b * (1 - alphas[0] - alphas[1])\<close>.
\<close>

theorem affine_regressor_score_zero:
  assumes run: "u_linearity_measure (affine_fn A b) x X_train features_range method epsilon
             nb_samples res alphas ''regressor'' g = (t, Inr score)"
    and wfx: "wf_array x" and wfT: "\<forall>Xt. X_train = Some Xt \<longrightarrow> wf_array Xt"
    and K: "1 \<le> nb_samples"
    and al: "(case alphas of None \<Rightarrow> [1 / 2, 1 / 2] | Some al \<Rightarrow> al) ! 0
             + (case alphas of None \<Rightarrow> [1 / 2, 1 / 2] | Some al \<Rightarrow> al) ! 1 = 1 \<or> b = 0"
  shows "data score = replicate (shape x ! 0) (Some 0)"
proof -
  from u_linearity_measure_Inr [OF run] obtain X_sampled out_sum sum_out
    where smp: "(method = ''knn'' \<and> (\<exists>Xt. X_train = Some Xt
                    \<and> sample_knn x Xt nb_samples = Inr X_sampled))
          \<or> (method = ''gridSampling'' \<and>
               (\<exists>fr. features_range = Some fr
                  \<and> sample_gridSampling x (Some fr) epsilon nb_samples res g = Inr X_sampled))"
    and sc: "calculate_linearity_regression (affine_fn A b) x (drop 1 (shape x)) X_sampled
               (case alphas of None \<Rightarrow> [1 / 2, 1 / 2] | Some al \<Rightarrow> al)
                 = (t, Inr (out_sum, sum_out, score))"
    by auto
  have "\<exists>n rest D. shape x = n # rest \<and> 0 < n \<and> wf_array X_sampled
           \<and> shape X_sampled = [n, nat nb_samples, D]"
  proof -
    from smp consider
      (knn) Xt where "X_train = Some Xt" "sample_knn x Xt nb_samples = Inr X_sampled"
    | (grid) fr where "sample_gridSampling x (Some fr) epsilon nb_samples res g = Inr X_sampled"
      by blast
    then show ?thesis
    proof cases
      case knn
      from sample_knn_result [OF knn(2)] wfT knn(1) show ?thesis by auto
    next
      case grid
      from sample_gridSampling_Inr [OF grid] show ?thesis by auto
    qed
  qed
  then obtain n rest D where shx: "shape x = n # rest" and n: "0 < n"
    and wfS: "wf_array X_sampled" and shS: "shape X_sampled = [n, nat nb_samples, D]"
    by blast
  have ish: "drop 1 (shape x) = rest" by (simp add: shx)
  have k: "0 < nat nb_samples" using K by simp
  from regression_affine [OF sc [unfolded ish] wfx wfS shx shS k n al]
  show ?thesis by (simp add: shx)
qed

lemma u_linearity_measure_grid_regressor:
  assumes "sample_gridSampling x (Some fr) epsilon nb_samples res g = Inr S"
    and "calculate_linearity_regression predict_fn x (drop 1 (shape x)) S
           (case alphas of None \<Rightarrow> [1 / 2, 1 / 2] | Some al \<Rightarrow> al) = (t, Inr (out_sum, sum_out, score))"
  shows "u_linearity_measure predict_fn x X_train (Some fr) ''gridSampling'' epsilon nb_samples
           res alphas ''regressor'' g = (t, Inr score)"
  using assms by (simp add: u_linearity_measure_def Let_def tbind_def lift_def)

subsection \<open>The class and the public function\<close>

lemma regression_succeeds:
  assumes shS: "shape X_samples = [n, k, D]" and D: "prod_list input_shape = D"
    and shx: "shape x = n # input_shape" and al: "length alphas = 2"
    and pf: "batch_fn predict_fn []"
  shows "\<exists>t out_sum sum_out score.
           calculate_linearity_regression predict_fn x input_shape X_samples alphas
             = (t, Inr (out_sum, sum_out, score))"
proof -
  have P: "shape (predict_fn a) = [shape a ! 0]" for a using pf by (simp add: batch_fn_def)
  show ?thesis
    unfolding calculate_linearity_regression_def Let_def
    using D al
    by (simp add: shS shx P merge_axes_def np_reshape_def repeat_axis1_def superpose_with_def
        sq_diff_def)
qed

lemma measure_succeeds:
  assumes shS: "shape X_samples = [n, k, D]" and D: "prod_list input_shape = D"
    and shx: "shape x = n # input_shape" and al: "length alphas = 2"
    and pf: "batch_fn predict_fn [C]"
  shows "\<exists>t out_sum sum_out score.
           calculate_linearity_measure predict_fn x input_shape X_samples alphas
             = (t, Inr (out_sum, sum_out, score))"
proof -
  have P: "shape (predict_fn a) = [shape a ! 0, C]" for a using pf by (simp add: batch_fn_def)
  show ?thesis
    unfolding calculate_linearity_measure_def Let_def
    using D al
    by (simp add: shS shx P merge_axes_def np_reshape_def repeat_axis1_def superpose_with_def
        sq_diff_def last_dim_def)
qed

lemma tbind_score:
  "m = (t, Inr (out_sum, sum_out, score)) \<Longrightarrow>
     tbind m (\<lambda>(out_sum, sum_out, score). lift (Inr score)) = (t, Inr score)"
  by (simp add: tbind_def lift_def)

lemma u_linearity_measure_grid_succeeds:
  assumes shx: "shape x = n # rest" and n: "0 < n" and D: "0 < prod_list rest"
    and fr: "length fr = prod_list rest" and res: "res \<noteq> 0" and K: "0 \<le> nb_samples"
    and al: "\<forall>al. alphas = Some al \<longrightarrow> length al = 2"
    and mf: "model_fn model_type predict_fn"
  shows "\<exists>t score. u_linearity_measure predict_fn x X_train (Some fr) ''gridSampling'' epsilon
                      nb_samples res alphas model_type g = (t, Inr score)"
proof -
  from sample_grid_cells [OF shx n D fr res K, of epsilon g] obtain S where
    run: "sample_gridSampling x (Some fr) epsilon nb_samples res g = Inr S"
    and shS: "shape S = [n, nat nb_samples, prod_list rest]" by blast
  define al' where "al' = (case alphas of None \<Rightarrow> [1 / 2, 1 / 2] | Some al \<Rightarrow> al)"
  have l2: "length al' = 2" using al by (auto simp: al'_def split: option.splits)
  have ish: "drop (Suc 0) (shape x) = rest" by (simp add: shx)
  from mf consider
    (reg) "model_type = ''regressor''" "batch_fn predict_fn []"
  | (cls) C where "model_type = ''classifier''" "batch_fn predict_fn [C]"
    by (auto simp: model_fn_def)
  then show ?thesis
  proof cases
    case reg
    from regression_succeeds [OF shS refl shx l2 reg(2)] obtain t out_sum sum_out score where
      "calculate_linearity_regression predict_fn x rest S al' = (t, Inr (out_sum, sum_out, score))"
      by blast
    then have "u_linearity_measure predict_fn x X_train (Some fr) ''gridSampling'' epsilon
                 nb_samples res alphas model_type g = (t, Inr score)"
      by (simp add: u_linearity_measure_def Let_def run ish reg(1) al'_def [symmetric] tbind_score)
    then show ?thesis by blast
  next
    case cls
    from measure_succeeds [OF shS refl shx l2 cls(2)] obtain t out_sum sum_out score where
      "calculate_linearity_measure predict_fn x rest S al' = (t, Inr (out_sum, sum_out, score))"
      by blast
    then have "u_linearity_measure predict_fn x X_train (Some fr) ''gridSampling'' epsilon
                 nb_samples res alphas model_type g = (t, Inr score)"
      by (simp add: u_linearity_measure_def Let_def run ish cls(1) al'_def [symmetric] tbind_score)
    then show ?thesis by blast
  qed
qed

lemma infer_features_range_Inr:
  assumes "infer_features_range X_train = Inr fr"
  shows "\<exists>n rest. shape X_train = n # rest \<and> 0 < n \<and> length fr = prod_list rest
           \<and> (\<forall>e<prod_list rest.
                 fst (fr ! e) = Min ((\<lambda>i. instance_cell X_train i e) ` {..<n})
               \<and> snd (fr ! e) = Max ((\<lambda>i. instance_cell X_train i e) ` {..<n}))"
proof -
  from assms obtain Xt where rt: "reshape_rows X_train = Inr Xt"
    and fr: "fr = map (\<lambda>e. let col = map (\<lambda>i. at2 Xt i e) [0..<shape Xt ! 0]
                       in (Min (set col), Max (set col))) [0..<shape Xt ! 1]"
    by (auto simp: infer_features_range_def bind_err_def split: sum.splits)
  from reshape_rows_Inr [OF rt] obtain n rest where sh: "shape X_train = n # rest"
    and n: "0 < n" and Xt: "Xt = \<lparr>shape = [n, prod_list rest], data = data X_train\<rparr>"
    by blast
  have cell: "at2 Xt i e = instance_cell X_train i e" for i e
    by (simp add: at2_def Xt instance_cell_def sh)
  have "set (map (\<lambda>i. at2 Xt i e) [0..<n]) = (\<lambda>i. instance_cell X_train i e) ` {..<n}" for e
    by (auto simp: cell)
  then show ?thesis
    using sh n by (simp add: fr Xt Let_def cell atLeast0LessThan)
qed

lemma fit_ok:
  assumes "LinearityMeasure_fit self0 X_train = (None, self)"
  shows "\<exists>fr. infer_features_range X_train = Inr fr
           \<and> self = self0\<lparr>self_X_train := Some X_train, self_features_range := Some fr,
                            self_input_shape := Some (drop 1 (shape X_train)),
                            self_is_fit := True\<rparr>"
  using assms by (auto simp: LinearityMeasure_fit_def Let_def split: sum.splits)

text \<open>
  The grid method on an object that is not fit never reaches the sampler: reading
  \<open>x.shape[1]\<close> or iterating over it raises, before any call to \<open>predict_fn\<close>.
\<close>

theorem unfit_grid_fallback_raises:
  assumes "\<not> self_is_fit self" and "self_method self = ''gridSampling''"
  shows "LinearityMeasure_linearity_measure self predict_fn x g
         = ([], Inl (if length (shape x) < 2 then IndexError else TypeError))"
  using assms
  by (simp add: LinearityMeasure_linearity_measure_def Let_def shape_at_def iter_int_def
      bind_err_def)

text \<open>
  Claim C8. On an object that is not fit, the nearest-neighbour method fails with
  AssertionError whatever the model, the batch and the random source, and makes no call to
  \<open>predict_fn\<close>. After a \<open>fit\<close> that returned, the grid method scores with the range that
  \<open>fit\<close> inferred and stored, and returns a score vector for a batch of \<open>n > 0\<close> instances
  of the fitted shape (with at least one cell), \<open>res \<noteq> 0\<close>, \<open>nb_samples \<ge> 0\<close>, two
  coefficients and a \<open>predict_fn\<close> that fits the model type.
\<close>

theorem facade_fit_state:
  "(\<not> self_is_fit self \<and> self_method self = ''knn'' \<longrightarrow>
       LinearityMeasure_linearity_measure self predict_fn x g = ([], Inl AssertionError))
   \<and> (LinearityMeasure_fit self0 X_train = (None, self')
        \<and> self_method self0 = ''gridSampling''
        \<and> shape x = n # drop 1 (shape X_train) \<and> 0 < n
        \<and> 0 < prod_list (drop 1 (shape X_train))
        \<and> self_res self0 \<noteq> 0 \<and> 0 \<le> self_nb_samples self0
        \<and> (\<forall>al. self_alphas self0 = Some al \<longrightarrow> length al = 2)
        \<and> model_fn (self_model_type self0) predict_fn \<longrightarrow>
       (\<exists>fr t score.
          infer_features_range X_train = Inr fr \<and> self_features_range self' = Some fr
          \<and> LinearityMeasure_linearity_measure self' predict_fn x g
              = u_linearity_measure predict_fn x None (Some fr) ''gridSampling''
                  (self_epsilon self0) (self_nb_samples self0) (self_res self0)
                  (self_alphas self0) (self_model_type self0) g
          \<and> LinearityMeasure_linearity_measure self' predict_fn x g = (t, Inr score)))"
proof (intro conjI impI)
  assume "\<not> self_is_fit self \<and> self_method self = ''knn''"
  then show "LinearityMeasure_linearity_measure self predict_fn x g = ([], Inl AssertionError)"
    by (simp add: LinearityMeasure_linearity_measure_def Let_def lift_def)
next
  assume h: "LinearityMeasure_fit self0 X_train = (None, self')
        \<and> self_method self0 = ''gridSampling''
        \<and> shape x = n # drop 1 (shape X_train) \<and> 0 < n
        \<and> 0 < prod_list (drop 1 (shape X_train))
        \<and> self_res self0 \<noteq> 0 \<and> 0 \<le> self_nb_samples self0
        \<and> (\<forall>al. self_alphas self0 = Some al \<longrightarrow> length al = 2)
        \<and> model_fn (self_model_type self0) predict_fn"
  from fit_ok [of self0 X_train self'] h obtain fr where
    inf: "infer_features_range X_train = Inr fr"
    and self': "self' = self0\<lparr>self_X_train := Some X_train, self_features_range := Some fr,
                            self_input_shape := Some (drop 1 (shape X_train)),
                            self_is_fit := True\<rparr>"
    by blast
  from infer_features_range_Inr [OF inf] obtain nt trest where
    sht: "shape X_train = nt # trest" and lfr: "length fr = prod_list trest" by blast
  have ish: "drop 1 (shape X_train) = trest" by (simp add: sht)
  have shx: "shape x = n # trest" using h ish by simp
  have eq: "LinearityMeasure_linearity_measure self' predict_fn x g
              = u_linearity_measure predict_fn x None (Some fr) ''gridSampling''
                  (self_epsilon self0) (self_nb_samples self0) (self_res self0)
                  (self_alphas self0) (self_model_type self0) g"
    using h by (simp add: LinearityMeasure_linearity_measure_def Let_def self' shx ish)
  from u_linearity_measure_grid_succeeds [OF shx _ _ lfr, of "self_res self0"
      "self_nb_samples self0" "self_alphas self0" "self_model_type self0" predict_fn None
      "self_epsilon self0" g] h ish
  obtain t score where
    "u_linearity_measure predict_fn x None (Some fr) ''gridSampling''
       (self_epsilon self0) (self_nb_samples self0) (self_res self0)
       (self_alphas self0) (self_model_type self0) g = (t, Inr score)"
    by auto
  with eq inf self' show "\<exists>fr t score.
          infer_features_range X_train = Inr fr \<and> self_features_range self' = Some fr
          \<and> LinearityMeasure_linearity_measure self' predict_fn x g
              = u_linearity_measure predict_fn x None (Some fr) ''gridSampling''
                  (self_epsilon self0) (self_nb_samples self0) (self_res self0)
                  (self_alphas self0) (self_model_type self0) g
          \<and> LinearityMeasure_linearity_measure self' predict_fn x g = (t, Inr score)"
    by auto
qed

text \<open>
  Claim C9. The public function with the grid method fails with AssertionError, before any
  call to \<open>predict_fn\<close> and whatever the random source, when neither a range nor a training
  set is given. Given a training set and no range, it scores with the range inferred from
  the training set (or raises what the inference raises), and that range holds, for every
  flattened feature, the minimum and the maximum over the training instances.
\<close>

theorem stateless_grid_range:
  "linearity_measure predict_fn x None ''gridSampling'' None epsilon nb_samples res alphas
       model_type g = ([], Inl AssertionError)
   \<and> (\<forall>e. infer_features_range Xt = Inl e \<longrightarrow>
         linearity_measure predict_fn x None ''gridSampling'' (Some Xt) epsilon nb_samples res
           alphas model_type g = ([], Inl e))
   \<and> (\<forall>fr. infer_features_range Xt = Inr fr \<longrightarrow>
         linearity_measure predict_fn x None ''gridSampling'' (Some Xt) epsilon nb_samples res
           alphas model_type g
         = u_linearity_measure predict_fn x None (Some fr) ''gridSampling'' epsilon nb_samples
             res alphas model_type g
         \<and> length fr = prod_list (drop 1 (shape Xt))
         \<and> (\<forall>e<prod_list (drop 1 (shape Xt)).
               fst (fr ! e) = Min ((\<lambda>i. instance_cell Xt i e) ` {..<shape Xt ! 0})
             \<and> snd (fr ! e) = Max ((\<lambda>i. instance_cell Xt i e) ` {..<shape Xt ! 0})))"
proof (intro conjI allI impI)
  show "linearity_measure predict_fn x None ''gridSampling'' None epsilon nb_samples res alphas
       model_type g = ([], Inl AssertionError)"
    by (simp add: linearity_measure_def lift_def)
next
  fix e assume "infer_features_range Xt = Inl e"
  then show "linearity_measure predict_fn x None ''gridSampling'' (Some Xt) epsilon nb_samples
           res alphas model_type g = ([], Inl e)"
    by (simp add: linearity_measure_def bind_err_def)
next
  fix fr assume inf: "infer_features_range Xt = Inr fr"
  then show "linearity_measure predict_fn x None ''gridSampling'' (Some Xt) epsilon nb_samples
           res alphas model_type g
         = u_linearity_measure predict_fn x None (Some fr) ''gridSampling'' epsilon nb_samples
             res alphas model_type g"
    by (simp add: linearity_measure_def bind_err_def)
  from infer_features_range_Inr [OF inf] obtain n rest where sh: "shape Xt = n # rest"
    and l: "length fr = prod_list rest"
    and mm: "\<forall>e<prod_list rest.
                 fst (fr ! e) = Min ((\<lambda>i. instance_cell Xt i e) ` {..<n})
               \<and> snd (fr ! e) = Max ((\<lambda>i. instance_cell Xt i e) ` {..<n})"
    by blast
  show "length fr = prod_list (drop 1 (shape Xt))" using l sh by simp
  fix e assume "e < prod_list (drop 1 (shape Xt))"
  then show "fst (fr ! e) = Min ((\<lambda>i. instance_cell Xt i e) ` {..<shape Xt ! 0})"
    and "snd (fr ! e) = Max ((\<lambda>i. instance_cell Xt i e) ` {..<shape Xt ! 0})"
    using mm sh by simp_all
qed

subsection \<open>The scenario, run\<close>

lemma grid_scn_run3:
  "sample_gridSampling x_scn (Some range_scn) (1 / 25) 3 100 ones_rng = Inr grid_scn_out3"
  by code_simp

lemma grid_scn_run0:
  "sample_gridSampling x_scn (Some range_scn) (1 / 25) 0 100 ones_rng = Inr grid_scn_out0"
  by code_simp

lemma scn_regression_run:
  "calculate_linearity_regression sum_fn x_scn [2] grid_scn_out3 [1 / 2, 1 / 2]
   = ([scn_flat3, x_scn, scn_summ3], Inr (scn_out3, scn_out3, score_zero))"
  by code_simp

lemma scn_regression_run0:
  "calculate_linearity_regression sum_fn x_scn [2] grid_scn_out0 [1 / 2, 1 / 2]
   = ([scn_flat0, x_scn, scn_flat0], Inr (scn_out0, scn_out0, score_nan))"
  by code_simp

lemma scn_regression_run1:
  "calculate_linearity_regression sum1_fn x_scn [2] grid_scn_out3 [1, 1]
   = ([scn_flat3, x_scn, scn_summ3b], Inr (scn_out_sum1, scn_sum_out1, score_one))"
  by code_simp

lemma shape_x_scn: "shape x_scn = [1, 2]"
  by (simp add: x_scn_def)

lemma scn_run:
  "u_linearity_measure sum_fn x_scn None (Some range_scn) ''gridSampling'' (1 / 25) 3 100 None
     ''regressor'' ones_rng = ([scn_flat3, x_scn, scn_summ3], Inr score_zero)"
  by (rule u_linearity_measure_grid_regressor [OF grid_scn_run3])
     (simp add: shape_x_scn scn_regression_run)

lemma scn_run0:
  "u_linearity_measure sum_fn x_scn None (Some range_scn) ''gridSampling'' (1 / 25) 0 100 None
     ''regressor'' ones_rng = ([scn_flat0, x_scn, scn_flat0], Inr score_nan)"
  by (rule u_linearity_measure_grid_regressor [OF grid_scn_run0])
     (simp add: shape_x_scn scn_regression_run0)

lemma scn_run1:
  "u_linearity_measure sum1_fn x_scn None (Some range_scn) ''gridSampling'' (1 / 25) 3 100
     (Some [1, 1]) ''regressor'' ones_rng = ([scn_flat3, x_scn, scn_summ3b], Inr score_one)"
  by (rule u_linearity_measure_grid_regressor [OF grid_scn_run3])
     (simp add: shape_x_scn scn_regression_run1)

text \<open>
  Claim C1 as the specification states it fails on the scenario: the scoring call passes
  three arrays to \<open>predict_fn\<close>, not two.
\<close>

theorem predict_fn_two_calls_counterexample:
  "u_linearity_measure sum_fn x_scn None (Some range_scn) ''gridSampling'' (1 / 25) 3 100 None
     ''regressor'' ones_rng = ([scn_flat3, x_scn, scn_summ3], Inr score_zero)
   \<and> length [scn_flat3, x_scn, scn_summ3] \<noteq> 2"
  by (simp add: scn_run)

text \<open>
The run on the scenario makes the three calls of \<open>predict_fn_three_calls\<close>.
\<close>

theorem predict_fn_three_calls_witness:
  "length [scn_flat3, x_scn, scn_summ3] \<le> 3
   \<and> (\<exists>a c. [scn_flat3, x_scn, scn_summ3] = [a, x_scn, c]
          \<and> shape a = (shape x_scn ! 0 * nat 3) # drop 1 (shape x_scn)
          \<and> shape c = shape a)"
  using predict_fn_three_calls [OF scn_run] by simp

text \<open>
  Claim C4 as the specification states it fails for coefficients that do not sum to 1: for
  the affine model \<open>v[:,0] + v[:,1] + 1\<close> and the non-negative coefficients \<open>(1, 1)\<close> the
  score is 1.
\<close>

theorem affine_alphas_counterexample:
  "u_linearity_measure (affine_fn [1, 1] 1) x_scn None (Some range_scn) ''gridSampling''
     (1 / 25) 3 100 (Some [1, 1]) ''regressor'' ones_rng
   = ([scn_flat3, x_scn, scn_summ3b], Inr score_one)
   \<and> data score_one = [Some 1]"
  using scn_run1 by (simp add: sum1_fn_def score_one_def)

text \<open>
The scenario's score is 0, by \<open>affine_regressor_score_zero\<close>.
\<close>

theorem affine_regressor_score_zero_witness:
  "data score_zero = replicate (shape x_scn ! 0) (Some 0)"
proof -
  have run: "u_linearity_measure (affine_fn [1, 1] 0) x_scn None (Some range_scn)
     ''gridSampling'' (1 / 25) 3 100 None ''regressor'' ones_rng
     = ([scn_flat3, x_scn, scn_summ3], Inr score_zero)"
    using scn_run by (simp add: sum_fn_def)
  have wfx: "wf_array x_scn" by (simp add: wf_array_def x_scn_def)
  show ?thesis
    by (rule affine_regressor_score_zero [OF run wfx]) simp_all
qed

text \<open>
  Claim C7 as the specification states it fails for \<open>nb_samples = 0\<close>: the grid sampler
  returns an array of shape \<open>(1, 0, 2)\<close>, the mean over the empty sample axis is \<open>nan\<close>, and
  \<open>nan\<close> is not at least 0.
\<close>

theorem score_nan_counterexample:
  "u_linearity_measure sum_fn x_scn None (Some range_scn) ''gridSampling'' (1 / 25) 0 100 None
     ''regressor'' ones_rng = ([scn_flat0, x_scn, scn_flat0], Inr score_nan)
   \<and> data score_nan = [None]"
  by (simp add: scn_run0) (simp add: score_nan_def)

text \<open>
The scenario's score is a number that is at least 0, by \<open>scores_nonneg\<close>.
\<close>

theorem scores_nonneg_witness:
  "\<exists>r. data score_zero ! 0 = Some r \<and> 0 \<le> r"
proof -
  have wfp: "\<forall>a. wf_array (sum_fn a)" by (simp add: sum_fn_def)
  have "\<forall>s \<in> set (data score_zero). \<exists>r. s = Some r \<and> 0 \<le> r"
    using scores_nonneg [OF scn_run] wfp by simp
  then show ?thesis by (simp add: score_zero_def)
qed

text \<open>
  Claim C2 fails on the code: on an object constructed with \<open>method='gridSampling'\<close> and
  never fit, scoring the instance \<open>[[1, 1]]\<close> raises TypeError and returns no score. The
  comment in the source says that the range \<open>[0, 1]\<close> per feature is meant.
\<close>

theorem unfit_grid_fallback_scn:
  "LinearityMeasure_linearity_measure lm_unfit_grid sum_fn x_scn ones_rng = ([], Inl TypeError)"
  by (simp add: LinearityMeasure_linearity_measure_def lm_unfit_grid_def
      LinearityMeasure_init_def shape_x_scn shape_at_def iter_int_def bind_err_def Let_def)

lemma fit_scn: "LinearityMeasure_fit lm_unfit_grid train3 = (None, lm_fit_grid)"
  by code_simp

lemma model_fn_sum: "model_fn ''regressor'' sum_fn"
  by (simp add: model_fn_def batch_fn_def sum_fn_def)

text \<open>
  Both halves of \<open>facade_fit_state\<close> on the scenario: an object for the nearest-neighbour
  method that is not fit, and an object for the grid method after \<open>fit\<close> on the training
  set \<open>[[0,0],[1,1],[2,2]]\<close>.
\<close>

theorem facade_fit_state_witness:
  "LinearityMeasure_linearity_measure lm_unfit_knn sum_fn x_scn ones_rng
     = ([], Inl AssertionError)
   \<and> (\<exists>fr t score.
          infer_features_range train3 = Inr fr \<and> self_features_range lm_fit_grid = Some fr
          \<and> LinearityMeasure_linearity_measure lm_fit_grid sum_fn x_scn ones_rng
              = u_linearity_measure sum_fn x_scn None (Some fr) ''gridSampling''
                  (self_epsilon lm_unfit_grid) (self_nb_samples lm_unfit_grid)
                  (self_res lm_unfit_grid) (self_alphas lm_unfit_grid)
                  (self_model_type lm_unfit_grid) ones_rng
          \<and> LinearityMeasure_linearity_measure lm_fit_grid sum_fn x_scn ones_rng
              = (t, Inr score))"
  using facade_fit_state [of lm_unfit_knn sum_fn x_scn ones_rng lm_unfit_grid train3
      lm_fit_grid 1] fit_scn model_fn_sum
  by (simp add: lm_unfit_knn_def lm_unfit_grid_def LinearityMeasure_init_def shape_x_scn
      train3_def)

text \<open>
  \<open>stateless_grid_range\<close> on the scenario: the range inferred from \<open>[[0,0],[1,1],[2,2]]\<close>
  is \<open>[[0,2],[0,2]]\<close>.
\<close>

theorem stateless_grid_range_witness:
  "linearity_measure sum_fn x_scn None ''gridSampling'' (Some train3) (1 / 25) 3 100 None
      ''regressor'' ones_rng
    = u_linearity_measure sum_fn x_scn None (Some range_scn) ''gridSampling'' (1 / 25) 3 100
        None ''regressor'' ones_rng
   \<and> length range_scn = prod_list (drop 1 (shape train3))
   \<and> fst (range_scn ! 0) = Min ((\<lambda>i. instance_cell train3 i 0) ` {..<shape train3 ! 0})
   \<and> snd (range_scn ! 0) = Max ((\<lambda>i. instance_cell train3 i 0) ` {..<shape train3 ! 0})
   \<and> fst (range_scn ! 1) = Min ((\<lambda>i. instance_cell train3 i 1) ` {..<shape train3 ! 0})
   \<and> snd (range_scn ! 1) = Max ((\<lambda>i. instance_cell train3 i 1) ` {..<shape train3 ! 0})"
proof -
  have inf: "infer_features_range train3 = Inr range_scn"
    unfolding range_scn_def by code_simp
  have d: "prod_list (drop 1 (shape train3)) = 2" by (simp add: train3_def)
  have all: "\<forall>e<2. fst (range_scn ! e)
                 = Min ((\<lambda>i. instance_cell train3 i e) ` {..<shape train3 ! 0})
               \<and> snd (range_scn ! e)
                 = Max ((\<lambda>i. instance_cell train3 i e) ` {..<shape train3 ! 0})"
    and rest: "linearity_measure sum_fn x_scn None ''gridSampling'' (Some train3) (1 / 25) 3
        100 None ''regressor'' ones_rng
      = u_linearity_measure sum_fn x_scn None (Some range_scn) ''gridSampling'' (1 / 25) 3 100
          None ''regressor'' ones_rng"
      "length range_scn = prod_list (drop 1 (shape train3))"
    using stateless_grid_range [of sum_fn x_scn "1 / 25" 3 100 None "''regressor''" ones_rng
        train3] inf d
    by auto
  have "(0::nat) < 2" "(1::nat) < 2" by simp_all
  with all rest show ?thesis by blast
qed




end
